theory Spec2Isabelle
  imports Main
begin

section \<open>The component installer: data\<close>

text \<open>
  The repository holds two revisions of the installer. \<^verbatim>\<open>src/index.js\<close>, lines 1 to 394,
  is the callback revision (events, \<^verbatim>\<open>Batch\<close>); lines 395 to 773 are the generator revision
  (\<^verbatim>\<open>co\<close>, \<^verbatim>\<open>archan\<close>), the one the test file drives through \<^verbatim>\<open>pkg.end\<close>.
  \<^verbatim>\<open>src/unnamed/part_001\<close> is a half-converted draft between the two: its constructor is the
  generator revision's and its \<^verbatim>\<open>reallyInstall\<close> body is the callback revision's.
  Definitions of the callback revision carry the suffix \<open>_cb\<close>, those of the generator
  revision the suffix \<open>_gen\<close>; functions that are the same text in both have no suffix.
\<close>

type_synonym path = string
type_synonym url = string
type_synonym slug = string

text \<open>The manifest (\<^verbatim>\<open>component.json\<close>): an absent field is \<open>None\<close>. A present array is
  truthy in JavaScript even when empty, so \<open>Some []\<close> and \<open>None\<close> are kept apart.\<close>

record manifest =
  scripts :: "string list option"
  styles :: "string list option"
  templates :: "string list option"
  files :: "string list option"
  images :: "string list option"
  fonts :: "string list option"
  json :: "string list option"
  dependencies :: "(string \<times> string) list option"
  repo :: "string option"

text \<open>A JavaScript \<^verbatim>\<open>Error\<close> object with the properties the installer reads or writes.\<close>

record jserror =
  message :: string
  status :: "nat option"
  syscall :: "string option"
  code :: "string option"
  fatal :: "bool option"

definition Error :: "string \<Rightarrow> jserror" where
  "Error msg = \<lparr>message = msg, status = None, syscall = None, code = None, fatal = None\<rparr>"

text \<open>The \<^verbatim>\<open>options\<close> argument of the constructor.\<close>

record options =
  opt_dest :: "string option"
  opt_remotes :: "string list option"
  opt_force :: bool
  opt_concurrency :: "nat option"

definition no_options :: options where
  "no_options = \<lparr>opt_dest = None, opt_remotes = None, opt_force = False, opt_concurrency = None\<rparr>"

text \<open>A \<^verbatim>\<open>Package\<close> object. \<open>remote\<close> is \<^verbatim>\<open>this.remote.href\<close>, unset until
  \<^verbatim>\<open>reallyInstall\<close> binds a mirror; \<open>inFlightFlag\<close> is \<^verbatim>\<open>this.inFlight\<close> of the callback
  revision (which also replaces \<^verbatim>\<open>this.install\<close>), \<open>exists_flag\<close> is \<^verbatim>\<open>this.exists = true\<close>
  of the generator revision.\<close>

record package =
  name :: string
  slug :: slug
  dest :: path
  remotes :: "url list"
  force :: bool
  version :: string
  concurrency :: "nat option"
  remote :: "url option"
  inFlightFlag :: bool
  exists_flag :: bool

text \<open>What a fetch answers: a transport error, or a response with a status code and, for a
  manifest request, the parsed body.\<close>

datatype reply = Failed jserror | Response nat manifest

datatype node = Dir | Json manifest | Blob url

datatype event = End | Exists | ErrorEv jserror | FileEv string url | DepEv slug

text \<open>Every effect on the outside world, in the order in which it completes.\<close>

datatype effect =
    Get url
  | Download url path
  | FsExists path
  | ReadFile path
  | Mkdirp path
  | WriteFile path
  | Rimraf path
  | Emit slug event

text \<open>The collaborators the source takes from Node and from the network: the working
  directory of \<^verbatim>\<open>path.resolve\<close>, \<^verbatim>\<open>url.parse(x).href\<close>, the table
  \<^verbatim>\<open>http.STATUS_CODES\<close> (rendered as it is concatenated into a message), the answer of
  each URL, and whether \<^verbatim>\<open>rimraf\<close> fails on a path.\<close>

record env =
  cwd :: path
  href :: "url \<Rightarrow> url"
  STATUS_CODES :: "nat \<Rightarrow> string"
  net :: "url \<Rightarrow> reply"
  rimraf_error :: "path \<Rightarrow> jserror option"

text \<open>The mutable world: the module-level \<^verbatim>\<open>inFlight\<close> object, the file system and the
  log of effects.\<close>

record world =
  inFlight :: "slug set"
  fs :: "path \<Rightarrow> node option"
  log :: "effect list"

definition say :: "effect list \<Rightarrow> world \<Rightarrow> world" where
  "say es w = w\<lparr>log := log w @ es\<rparr>"

text \<open>How a call ends: it returns (or calls back with) a value, it throws, its callback is
  never called, or the model ran out of fuel for nested dependency installs.\<close>

datatype 'a outcome = Return 'a | Throw jserror | Pending | OutOfFuel

section \<open>Node's string and path functions\<close>

fun split_on :: "char \<Rightarrow> string \<Rightarrow> string \<Rightarrow> string list" where
  "split_on c acc [] = [rev acc]"
| "split_on c acc (x # xs) =
     (if x = c then rev acc # split_on c [] xs else split_on c (x # acc) xs)"

text \<open>\<^verbatim>\<open>s.split('/')\<close> and \<^verbatim>\<open>a.join(sep)\<close>.\<close>

definition split_slash :: "string \<Rightarrow> string list" where
  "split_slash s = split_on (CHR ''/'') [] s"

fun join_with :: "string \<Rightarrow> string list \<Rightarrow> string" where
  "join_with sep [] = []"
| "join_with sep [x] = x"
| "join_with sep (x # y # ys) = x @ sep @ join_with sep (y # ys)"

text \<open>\<^verbatim>\<open>toLowerCase\<close> on the ASCII letters.\<close>

definition lower_char :: "char \<Rightarrow> char" where
  "lower_char c =
     (if (65::nat) \<le> of_char c \<and> of_char c \<le> (90::nat) then char_of (of_char c + (32::nat)) else c)"

definition toLowerCase :: "string \<Rightarrow> string" where
  "toLowerCase s = map lower_char s"

text \<open>The decimal rendering of a number in a string concatenation.\<close>

function string_of_nat :: "nat \<Rightarrow> string" where
  "string_of_nat n =
     (if n < 10 then [char_of (48 + n)] else string_of_nat (n div 10) @ [char_of (48 + n mod 10)])"
  by pat_completeness auto
termination
  by (relation "measure id") auto

declare string_of_nat.simps [simp del]

text \<open>\<^verbatim>\<open>path.resolve\<close> (POSIX): the arguments are taken from the right until one is absolute, the
  working directory last; empty arguments are skipped; the result is normalised, \<^verbatim>\<open>.\<close> and
  empty segments dropped and \<^verbatim>\<open>..\<close> removing the segment before it.\<close>

definition isAbsolute :: "path \<Rightarrow> bool" where
  "isAbsolute p = (case p of [] \<Rightarrow> False | c # _ \<Rightarrow> c = CHR ''/'')"

fun normalizeArray :: "bool \<Rightarrow> string list \<Rightarrow> string list \<Rightarrow> string list" where
  "normalizeArray up acc [] = rev acc"
| "normalizeArray up acc (s # ss) =
     (if s = [] \<or> s = ''.'' then normalizeArray up acc ss
      else if s = ''..'' then
        (case acc of
           [] \<Rightarrow> normalizeArray up (if up then [s] else []) ss
         | a # rest \<Rightarrow>
             if up \<and> a = ''..'' then normalizeArray up (s # acc) ss
             else normalizeArray up rest ss)
      else normalizeArray up (s # acc) ss)"

fun resolve_join :: "path list \<Rightarrow> path" where
  "resolve_join [] = []"
| "resolve_join (p # ps) =
     (let right = resolve_join ps in
      if isAbsolute right \<or> p = [] then right else p @ ''/'' @ right)"

definition resolve :: "path \<Rightarrow> path list \<Rightarrow> path" where
  "resolve wd ps =
     (let joined = resolve_join (wd # ps);
          norm = join_with ''/'' (normalizeArray (\<not> isAbsolute joined) [] (split_slash joined))
      in if isAbsolute joined then ''/'' @ norm
         else if norm = [] then ''.'' else norm)"

text \<open>\<^verbatim>\<open>path.dirname\<close> of a resolved (absolute, normalised) path.\<close>

definition path_dirname :: "path \<Rightarrow> path" where
  "path_dirname p = ''/'' @ join_with ''/'' (butlast (normalizeArray False [] (split_slash p)))"

section \<open>Identity and paths\<close>

text \<open>\<^verbatim>\<open>function Package(pkg, version, options)\<close>, callback revision (index.js:53). The
  constructor throws before it touches \<^verbatim>\<open>inFlight\<close>; otherwise it marks the slug, and a
  slug that was already marked gets \<^verbatim>\<open>install\<close> replaced by \<^verbatim>\<open>emit('end')\<close>.\<close>

definition or_default :: "string option \<Rightarrow> string \<Rightarrow> string" where
  "or_default v d = (case v of None \<Rightarrow> d | Some s \<Rightarrow> if s = [] then d else s)"

definition Package_cb :: "string \<Rightarrow> string \<Rightarrow> options \<Rightarrow> world \<Rightarrow> package outcome \<times> world" where
  "Package_cb pkg version0 opts w =
     (let version = (if version0 = ''*'' then ''master'' else version0) in
      if pkg = [] then (Throw (Error ''pkg required''), w)
      else if version = [] then (Throw (Error ''version required''), w)
      else
        let sl = pkg @ ''@'' @ version in
        (Return \<lparr>name = pkg, slug = sl,
                 dest = or_default (opt_dest opts) ''components'',
                 remotes = (case opt_remotes opts of None \<Rightarrow> [''https://raw.github.com''] | Some rs \<Rightarrow> rs),
                 force = opt_force opts, version = version,
                 concurrency = opt_concurrency opts, remote = None,
                 inFlightFlag = (sl \<in> inFlight w), exists_flag = False\<rparr>,
         w\<lparr>inFlight := insert sl (inFlight w)\<rparr>))"

text \<open>The constructor of the generator revision (index.js:444, part_001:54): the same
  checks, and no access to \<^verbatim>\<open>inFlight\<close>. \<^verbatim>\<open>netrc(...)\<close> and \<^verbatim>\<open>archan(...)\<close> are library
  calls whose results the model does not read.\<close>

definition Package_gen :: "string \<Rightarrow> string \<Rightarrow> options \<Rightarrow> world \<Rightarrow> package outcome \<times> world" where
  "Package_gen pkg version0 opts w =
     (let version = (if version0 = ''*'' then ''master'' else version0) in
      if pkg = [] then (Throw (Error ''pkg required''), w)
      else if version = [] then (Throw (Error ''version required''), w)
      else
        (Return \<lparr>name = pkg, slug = pkg @ ''@'' @ version,
                 dest = or_default (opt_dest opts) ''components'',
                 remotes = (case opt_remotes opts of None \<Rightarrow> [''https://raw.github.com''] | Some rs \<Rightarrow> rs),
                 force = opt_force opts, version = version,
                 concurrency = opt_concurrency opts, remote = None,
                 inFlightFlag = False, exists_flag = False\<rparr>,
         w))"

text \<open>\<^verbatim>\<open>Package.prototype.dirname\<close>: the callback revision lower-cases the name
  (index.js:91), the generator revision does not (index.js:479).\<close>

definition dirname_cb :: "env \<Rightarrow> package \<Rightarrow> path" where
  "dirname_cb e p = resolve (cwd e) [dest p, join_with ''-'' (split_slash (toLowerCase (name p)))]"

definition dirname_gen :: "env \<Rightarrow> package \<Rightarrow> path" where
  "dirname_gen e p = resolve (cwd e) [dest p, join_with ''-'' (split_slash (name p))]"

definition join_cb :: "env \<Rightarrow> package \<Rightarrow> path \<Rightarrow> path" where
  "join_cb e p f = resolve (cwd e) [dirname_cb e p, f]"

definition join_gen :: "env \<Rightarrow> package \<Rightarrow> path \<Rightarrow> path" where
  "join_gen e p f = resolve (cwd e) [dirname_gen e p, f]"

text \<open>\<^verbatim>\<open>Package.prototype.url\<close> (index.js:115 and 503): the bound mirror if there is one,
  else \<^verbatim>\<open>remotes[0]\<close>, which is \<^verbatim>\<open>undefined\<close> for an empty list.\<close>

definition url :: "package \<Rightarrow> string \<Rightarrow> url" where
  "url p file =
     (let r = (case remote p of
                 Some h \<Rightarrow> h
               | None \<Rightarrow> (case remotes p of [] \<Rightarrow> ''undefined'' | r0 # _ \<Rightarrow> r0))
      in r @ ''/'' @ name p @ ''/'' @ version p @ ''/'' @ file)"

section \<open>The file system, the network and errors\<close>

definition fs_error :: "string \<Rightarrow> path \<Rightarrow> jserror" where
  "fs_error c f = (Error (c @ '', '' @ f))\<lparr>code := Some c\<rparr>"

text \<open>\<^verbatim>\<open>mkdirp\<close>: the directory exists afterwards unless a file is in its way.\<close>

definition mkdirp :: "path \<Rightarrow> world \<Rightarrow> jserror option \<times> world" where
  "mkdirp d w =
     (case fs w d of
        None \<Rightarrow> (None, say [Mkdirp d] (w\<lparr>fs := (fs w)(d \<mapsto> Dir)\<rparr>))
      | Some Dir \<Rightarrow> (None, say [Mkdirp d] w)
      | Some _ \<Rightarrow> (Some (fs_error ''EEXIST'' d), say [Mkdirp d] w))"

text \<open>\<^verbatim>\<open>fs.writeFile\<close>: fails on a directory and in a directory that does not exist.\<close>

definition fs_writeFile :: "path \<Rightarrow> node \<Rightarrow> world \<Rightarrow> jserror option \<times> world" where
  "fs_writeFile f n w =
     (if fs w f = Some Dir then (Some (fs_error ''EISDIR'' f), say [WriteFile f] w)
      else if fs w (path_dirname f) \<noteq> Some Dir then (Some (fs_error ''ENOENT'' f), say [WriteFile f] w)
      else (None, say [WriteFile f] (w\<lparr>fs := (fs w)(f \<mapsto> n)\<rparr>)))"

text \<open>\<^verbatim>\<open>rimraf\<close>: removes the path and everything below it, unless the environment makes
  it fail.\<close>

definition below :: "path \<Rightarrow> path \<Rightarrow> bool" where
  "below d q = (q = d \<or> take (Suc (length d)) q = d @ ''/'')"

definition rimraf :: "env \<Rightarrow> path \<Rightarrow> world \<Rightarrow> jserror option \<times> world" where
  "rimraf e d w =
     (case rimraf_error e d of
        Some err \<Rightarrow> (Some err, say [Rimraf d] w)
      | None \<Rightarrow> (None, say [Rimraf d] (w\<lparr>fs := (\<lambda>q. if below d q then None else fs w q)\<rparr>)))"

text \<open>\<^verbatim>\<open>fs.readFile\<close> followed by \<^verbatim>\<open>JSON.parse\<close>: a file written by the installer parses
  to its manifest; a downloaded file is taken not to be JSON.\<close>

definition readJSON :: "path \<Rightarrow> world \<Rightarrow> manifest outcome \<times> world" where
  "readJSON f w =
     (case fs w f of
        None \<Rightarrow> (Throw (fs_error ''ENOENT'' f), say [ReadFile f] w)
      | Some Dir \<Rightarrow> (Throw (fs_error ''EISDIR'' f), say [ReadFile f] w)
      | Some (Json m) \<Rightarrow> (Return m, say [ReadFile f] w)
      | Some (Blob u) \<Rightarrow> (Throw (Error (''Unexpected token in '' @ f)), say [ReadFile f] w))"

text \<open>A download (\<^verbatim>\<open>request\<close> with a destination): the file appears when the status
  is 200.\<close>

definition download :: "url \<Rightarrow> path \<Rightarrow> nat \<Rightarrow> world \<Rightarrow> world" where
  "download u dst s w =
     say [Download u dst] (if s = 200 then w\<lparr>fs := (fs w)(dst \<mapsto> Blob u)\<rparr> else w)"

text \<open>\<^verbatim>\<open>function error(res, url)\<close> (index.js:389 and 748).\<close>

definition error :: "env \<Rightarrow> nat \<Rightarrow> url \<Rightarrow> jserror" where
  "error e s u =
     (Error (''failed to fetch '' @ u @ '', got '' @ string_of_nat s @ '' '' @ [CHR 0x22]
             @ STATUS_CODES e s @ [CHR 0x22]))\<lparr>status := Some s\<rparr>"

text \<open>What the \<^verbatim>\<open>catch\<close> of a failed request does to the error: the callback revision
  (index.js:179) rewrites the message of a DNS failure; the generator revision (index.js:579)
  also appends the URL to every other message.\<close>

definition dns_cb :: "jserror \<Rightarrow> jserror" where
  "dns_cb err = (if syscall err = Some ''getaddrinfo'' then err\<lparr>message := ''dns lookup failed''\<rparr> else err)"

definition dns_gen :: "url \<Rightarrow> jserror \<Rightarrow> jserror" where
  "dns_gen u err =
     (if syscall err = Some ''getaddrinfo'' then err\<lparr>message := ''dns lookup failed''\<rparr>
      else err\<lparr>message := message err @ '' in '' @ u\<rparr>)"

text \<open>\<^verbatim>\<open>Package.prototype.getJSON\<close>, callback revision (index.js:168): \<open>Inl\<close> is
  \<^verbatim>\<open>fn(err)\<close>, \<open>Inr\<close> is \<^verbatim>\<open>fn(null, res.body)\<close>.\<close>

definition getJSON_cb :: "env \<Rightarrow> package \<Rightarrow> world \<Rightarrow> (jserror + manifest) \<times> world" where
  "getJSON_cb e p w =
     (let u = url p ''component.json''; w1 = say [Get u] w in
      case net e u of
        Failed err \<Rightarrow> (Inl (dns_cb err), w1)
      | Response s body \<Rightarrow> if s \<noteq> 200 then (Inl (error e s u), w1) else (Inr body, w1))"

text \<open>\<^verbatim>\<open>Package.prototype.getJSON\<close>, generator revision (index.js:557): the status it
  accepts is 400. \<^verbatim>\<open>res.res\<close> is taken to carry the status code of \<^verbatim>\<open>res\<close>. The
  \<^verbatim>\<open>Authorization\<close> header, like the proxy and credentials of the callback revision, does
  not change which answer the network of the model gives.\<close>

definition getJSON_gen :: "env \<Rightarrow> package \<Rightarrow> world \<Rightarrow> manifest outcome \<times> world" where
  "getJSON_gen e p w =
     (let u = url p ''component.json''; w1 = say [Get u] w in
      case net e u of
        Failed err \<Rightarrow> (Throw (dns_gen u err), w1)
      | Response s body \<Rightarrow> if s \<noteq> 400 then (Throw (error e s u), w1) else (Return body, w1))"

section \<open>The transfer set\<close>

text \<open>The seven \<^verbatim>\<open>if (json.x) files = files.concat(json.x)\<close> of \<^verbatim>\<open>reallyInstall\<close>
  (index.js:339 and 715), one step each.\<close>

definition concat_if :: "string list option \<Rightarrow> string list \<Rightarrow> string list" where
  "concat_if field fl = (case field of None \<Rightarrow> fl | Some xs \<Rightarrow> fl @ xs)"

definition transfer_set :: "manifest \<Rightarrow> string list" where
  "transfer_set js =
     (let fl = [];
          fl = concat_if (scripts js) fl;
          fl = concat_if (styles js) fl;
          fl = concat_if (templates js) fl;
          fl = concat_if (files js) fl;
          fl = concat_if (images js) fl;
          fl = concat_if (fonts js) fl;
          fl = concat_if (json js) fl
      in fl)"

text \<open>\<^verbatim>\<open>json.repo = json.repo || self.remote.href + '/' + self.name\<close>.\<close>

definition with_repo :: "package \<Rightarrow> manifest \<Rightarrow> manifest" where
  "with_repo p js =
     js\<lparr>repo := Some (or_default (repo js)
                      ((case remote p of None \<Rightarrow> ''undefined'' | Some h \<Rightarrow> h) @ ''/'' @ name p))\<rparr>"

definition invalid_name :: "package \<Rightarrow> jserror" where
  "invalid_name p = Error (''invalid component name '' @ [CHR 0x22] @ name p @ [CHR 0x22])"

definition cant_find_remote :: "package \<Rightarrow> jserror" where
  "cant_find_remote p = Error (''can't find remote for '' @ [CHR 0x22] @ name p @ [CHR 0x22])"

text \<open>The options a parent passes to the constructor of a dependency
  (index.js:256 and 640).\<close>

definition child_options :: "package \<Rightarrow> options" where
  "child_options p =
     \<lparr>opt_dest = Some (dest p), opt_remotes = Some (remotes p), opt_force = force p,
      opt_concurrency = None\<rparr>"

section \<open>The generator revision (index.js:395--773)\<close>

text \<open>
  A generator body is a sequence of \<^verbatim>\<open>yield\<close>s: each step runs to its end before the next
  starts, and an exception leaves the body at once. The tasks that \<^verbatim>\<open>getFiles\<close> and
  \<^verbatim>\<open>getDependencies\<close> hand to the channel are run one after the other, each to its end when
  it is started, and the error of a task is raised by the next \<^verbatim>\<open>drain\<close> or \<^verbatim>\<open>flush\<close>,
  that is before the next task starts.
\<close>

definition andThen :: "'a outcome \<times> world \<Rightarrow> ('a \<Rightarrow> world \<Rightarrow> 'b outcome \<times> world) \<Rightarrow> 'b outcome \<times> world" where
  "andThen r k =
     (case r of
        (Return x, w) \<Rightarrow> k x w
      | (Throw err, w) \<Rightarrow> (Throw err, w)
      | (Pending, w) \<Rightarrow> (Pending, w)
      | (OutOfFuel, w) \<Rightarrow> (OutOfFuel, w))"

definition raise_if :: "jserror option \<times> world \<Rightarrow> unit outcome \<times> world" where
  "raise_if r = (case r of (None, w) \<Rightarrow> (Return (), w) | (Some err, w) \<Rightarrow> (Throw err, w))"

text \<open>\<^verbatim>\<open>mkdir\<close> (index.js:519): \<^verbatim>\<open>this.dirs\<close> is never written, so the directory is made
  on every call. \<^verbatim>\<open>destroy\<close> (index.js:530), \<^verbatim>\<open>getLocalJSON\<close> (index.js:540),
  \<^verbatim>\<open>writeFile\<close> (index.js:621).\<close>

definition mkdir_gen :: "path \<Rightarrow> world \<Rightarrow> unit outcome \<times> world" where
  "mkdir_gen d w = raise_if (mkdirp d w)"

definition destroy_gen :: "env \<Rightarrow> package \<Rightarrow> world \<Rightarrow> unit outcome \<times> world" where
  "destroy_gen e p w = raise_if (rimraf e (dirname_gen e p) w)"

definition getLocalJSON_gen :: "env \<Rightarrow> package \<Rightarrow> world \<Rightarrow> manifest outcome \<times> world" where
  "getLocalJSON_gen e p w = readJSON (join_gen e p ''component.json'') w"

definition writeFile_gen :: "env \<Rightarrow> package \<Rightarrow> string \<Rightarrow> node \<Rightarrow> world \<Rightarrow> unit outcome \<times> world" where
  "writeFile_gen e p f n w = raise_if (fs_writeFile (join_gen e p f) n w)"

text \<open>\<^verbatim>\<open>getFile\<close> (index.js:602).\<close>

definition getFile_gen :: "env \<Rightarrow> package \<Rightarrow> string \<Rightarrow> world \<Rightarrow> unit outcome \<times> world" where
  "getFile_gen e p f w =
     (let u = url p f;
          w1 = say [Emit (slug p) (FileEv f u)] w;
          dst = join_gen e p f
      in andThen (mkdir_gen (path_dirname dst) w1) (\<lambda>_ w2.
           case net e u of
             Failed err \<Rightarrow> (Throw err, say [Download u dst] w2)
           | Response s body \<Rightarrow>
               if s \<noteq> 200 then (Throw (error e s u), download u dst s w2)
               else (Return (), download u dst s w2)))"

text \<open>\<^verbatim>\<open>getFiles\<close> (index.js:594).\<close>

fun getFiles_gen :: "env \<Rightarrow> package \<Rightarrow> string list \<Rightarrow> world \<Rightarrow> unit outcome \<times> world" where
  "getFiles_gen e p [] w = (Return (), w)"
| "getFiles_gen e p (f # fl) w = andThen (getFile_gen e p f w) (\<lambda>_ w1. getFiles_gen e p fl w1)"

text \<open>The install of a dependency is a parameter \<open>inst\<close> of the functions below; \<open>install_gen\<close>
  closes the recursion with a bound on the depth of nested dependencies.\<close>

type_synonym installer = "package \<Rightarrow> world \<Rightarrow> unit outcome \<times> package \<times> world"

definition forget :: "unit outcome \<times> package \<times> world \<Rightarrow> unit outcome \<times> world" where
  "forget r = (fst r, snd (snd r))"

text \<open>\<^verbatim>\<open>getDependencies\<close> (index.js:634); \<^verbatim>\<open>pkg.end\<close> (index.js:650) runs the child's
  \<^verbatim>\<open>install\<close>.\<close>

fun getDependencies_gen :: "installer \<Rightarrow> package \<Rightarrow> (string \<times> string) list \<Rightarrow> world \<Rightarrow> unit outcome \<times> world" where
  "getDependencies_gen inst p [] w = (Return (), w)"
| "getDependencies_gen inst p ((n, v) # deps) w =
     andThen (Package_gen n v (child_options p) w) (\<lambda>pkg w1.
     andThen (forget (inst pkg (say [Emit (slug p) (DepEv (slug pkg))] w1))) (\<lambda>_ w2.
       getDependencies_gen inst p deps w2))"

text \<open>After the \<^verbatim>\<open>while\<close> loop of \<^verbatim>\<open>reallyInstall\<close> (index.js:734): destroy, then throw.\<close>

definition failed_gen :: "env \<Rightarrow> package \<Rightarrow> world \<Rightarrow> unit outcome \<times> package \<times> world" where
  "failed_gen e p w =
     (case destroy_gen e p w of
        (Return _, w1) \<Rightarrow> (Throw (cant_find_remote p), p, w1)
      | (x, w1) \<Rightarrow> (x, p, w1))"

text \<open>What \<^verbatim>\<open>reallyInstall\<close> does with a fetched manifest (index.js:715--731).\<close>

definition fetched_gen :: "installer \<Rightarrow> env \<Rightarrow> package \<Rightarrow> manifest \<Rightarrow> world \<Rightarrow> unit outcome \<times> world" where
  "fetched_gen inst e p js0 w =
     (let fl = transfer_set js0;
          js = with_repo p js0
      in andThen (case dependencies js of
                    None \<Rightarrow> (Return (), w)
                  | Some deps \<Rightarrow> getDependencies_gen inst p deps w) (\<lambda>_ w1.
         andThen (mkdir_gen (dirname_gen e p) w1) (\<lambda>_ w2.
         andThen (writeFile_gen e p ''component.json'' (Json js) w2) (\<lambda>_ w3.
           getFiles_gen e p fl w3))))"

text \<open>The \<^verbatim>\<open>while (remote = this.remotes[i++])\<close> loop of \<^verbatim>\<open>reallyInstall\<close> (index.js:693),
  on the mirrors not yet tried: the loop ends at the end of the list and at an empty
  string; \<^verbatim>\<open>last = i == this.remotes.length\<close> holds when no mirror is left after this one.
  Nothing leaves the loop after a mirror has been installed from: the loop goes on to the
  next mirror.\<close>

fun mirrors_gen :: "installer \<Rightarrow> env \<Rightarrow> package \<Rightarrow> url list \<Rightarrow> world \<Rightarrow> unit outcome \<times> package \<times> world" where
  "mirrors_gen inst e p [] w = failed_gen e p w"
| "mirrors_gen inst e p (r # rs) w =
     (if r = [] then failed_gen e p w
      else
        let last = (rs = []);
            p1 = p\<lparr>remote := Some (butlast (href e r))\<rparr>
        in case getJSON_gen e p1 w of
             (Return js, w1) \<Rightarrow>
               (case fetched_gen inst e p1 js w1 of
                  (Return _, w2) \<Rightarrow> mirrors_gen inst e p1 rs w2
                | (x, w2) \<Rightarrow> (x, p1, w2))
           | (Throw err, w1) \<Rightarrow> if last then (Throw err, p1, w1) else mirrors_gen inst e p1 rs w1
           | (Pending, w1) \<Rightarrow> (Pending, p1, w1)
           | (OutOfFuel, w1) \<Rightarrow> (OutOfFuel, p1, w1))"

definition reallyInstall_gen :: "installer \<Rightarrow> env \<Rightarrow> package \<Rightarrow> world \<Rightarrow> unit outcome \<times> package \<times> world" where
  "reallyInstall_gen inst e p w = mirrors_gen inst e p (remotes p) w"

text \<open>\<^verbatim>\<open>install\<close> (index.js:661).\<close>

definition install_body_gen :: "installer \<Rightarrow> env \<Rightarrow> package \<Rightarrow> world \<Rightarrow> unit outcome \<times> package \<times> world" where
  "install_body_gen inst e p w =
     (if slug p \<in> inFlight w then (Return (), p, w)
      else
        let w1 = w\<lparr>inFlight := insert (slug p) (inFlight w)\<rparr> in
        if CHR ''/'' \<notin> set (name p) then (Throw (invalid_name p), p, w1)
        else
          case getLocalJSON_gen e p w1 of
            (Throw err, w2) \<Rightarrow>
              if code err = Some ''ENOENT'' then reallyInstall_gen inst e p w2
              else (Throw err, p, w2)
          | (Return _, w2) \<Rightarrow>
              if \<not> force p then (Return (), p\<lparr>exists_flag := True\<rparr>, w2)
              else reallyInstall_gen inst e p w2
          | (Pending, w2) \<Rightarrow> (Pending, p, w2)
          | (OutOfFuel, w2) \<Rightarrow> (OutOfFuel, p, w2))"

fun install_gen :: "nat \<Rightarrow> env \<Rightarrow> package \<Rightarrow> world \<Rightarrow> unit outcome \<times> package \<times> world" where
  "install_gen 0 e = install_body_gen (\<lambda>p w. (OutOfFuel, p, w)) e"
| "install_gen (Suc n) e = install_body_gen (install_gen n e) e"

section \<open>The callback revision (index.js:1--394)\<close>

text \<open>
  The callback revision reports through events. \<open>Return ()\<close> of an install means that
  \<^verbatim>\<open>end\<close> or \<^verbatim>\<open>exists\<close> was emitted, \<open>Pending\<close> that neither was; the errors emitted are in
  the log. Every package is taken to have a listener for \<^verbatim>\<open>error\<close>, so that
  \<^verbatim>\<open>emit('error', err)\<close> records the error and does not throw.

  \<^verbatim>\<open>Batch\<close> starts its tasks in the order they were pushed and calls back once: with the
  first error, or with no error when every task has called back. The tasks are run one
  after the other, each to its end, and the batch's callback after them. With a
  concurrency of \<open>n\<close>, the tasks in flight when the first error arrives (the next
  \<open>n - 1\<close>) still run and no other is started.
\<close>

type_synonym task = "world \<Rightarrow> jserror option outcome \<times> world"

definition one_less :: "nat option \<Rightarrow> nat option" where
  "one_less limit = map_option (\<lambda>n. n - 1) limit"

fun batch_run :: "nat option \<Rightarrow> nat option \<Rightarrow> jserror option \<Rightarrow> bool \<Rightarrow> task list \<Rightarrow> world \<Rightarrow> jserror option outcome \<times> world" where
  "batch_run limit allow err pend [] w =
     (case err of Some x \<Rightarrow> Return (Some x) | None \<Rightarrow> if pend then Pending else Return None, w)"
| "batch_run limit allow err pend (t # ts) w =
     (if allow = Some 0 then batch_run limit allow err pend [] w
      else
        case t w of
          (Throw x, w1) \<Rightarrow> (Throw x, w1)
        | (OutOfFuel, w1) \<Rightarrow> (OutOfFuel, w1)
        | (Pending, w1) \<Rightarrow> batch_run limit (one_less allow) err True ts w1
        | (Return r, w1) \<Rightarrow>
            (case err of
               Some _ \<Rightarrow> batch_run limit (one_less allow) err pend ts w1
             | None \<Rightarrow>
                 (case r of
                    None \<Rightarrow> batch_run limit allow None pend ts w1
                  | Some x \<Rightarrow> batch_run limit (one_less limit) (Some x) pend ts w1)))"

definition batch_end :: "nat option \<Rightarrow> task list \<Rightarrow> world \<Rightarrow> jserror option outcome \<times> world" where
  "batch_end limit ts w = batch_run limit None None False ts w"

text \<open>The task \<^verbatim>\<open>getFiles\<close> pushes for one file (index.js:203). On a status other than 200
  it calls \<^verbatim>\<open>err(res, url)\<close> where \<^verbatim>\<open>err\<close> is the null error of the request: a TypeError
  thrown from the request's callback, which no \<^verbatim>\<open>try\<close> encloses.\<close>

definition not_a_function :: jserror where
  "not_a_function = Error ''TypeError: err is not a function''"

definition getFile_cb :: "env \<Rightarrow> package \<Rightarrow> string \<Rightarrow> task" where
  "getFile_cb e p f w =
     (let u = url p f;
          w1 = say [Emit (slug p) (FileEv f u)] w;
          dst = join_cb e p f
      in case net e u of
           Failed err \<Rightarrow> (Return (Some err), say [Download u dst] w1)
         | Response s body \<Rightarrow>
             if s \<noteq> 200 then (Throw not_a_function, download u dst s w1)
             else (Return None, download u dst s w1))"

text \<open>\<^verbatim>\<open>getFiles\<close> (index.js:196): \<^verbatim>\<open>if (this.concurrency) batch.concurrency(...)\<close>.\<close>

definition batch_limit :: "package \<Rightarrow> nat option" where
  "batch_limit p = (case concurrency p of None \<Rightarrow> None | Some n \<Rightarrow> if n = 0 then None else Some n)"

definition getFiles_cb :: "env \<Rightarrow> package \<Rightarrow> string list \<Rightarrow> task" where
  "getFiles_cb e p fl w = batch_end (batch_limit p) (map (getFile_cb e p) fl) w"

text \<open>The task \<^verbatim>\<open>getDependencies\<close> pushes for one dependency (index.js:255): an exception
  of the constructor is caught by \<^verbatim>\<open>Batch\<close> and becomes the task's error; \<^verbatim>\<open>done\<close> is
  called when the child emits \<^verbatim>\<open>end\<close> or \<^verbatim>\<open>exists\<close>.\<close>

definition dep_cb :: "installer \<Rightarrow> package \<Rightarrow> string \<times> string \<Rightarrow> task" where
  "dep_cb inst p d w =
     (case Package_cb (fst d) (snd d) (child_options p) w of
        (Throw err, w1) \<Rightarrow> (Return (Some err), w1)
      | (Return pkg, w1) \<Rightarrow>
          (case inst pkg (say [Emit (slug p) (DepEv (slug pkg))] w1) of
             (Return _, _, w2) \<Rightarrow> (Return None, w2)
           | (Throw x, _, w2) \<Rightarrow> (Throw x, w2)
           | (Pending, _, w2) \<Rightarrow> (Pending, w2)
           | (OutOfFuel, _, w2) \<Rightarrow> (OutOfFuel, w2))
      | (Pending, w1) \<Rightarrow> (Pending, w1)
      | (OutOfFuel, w1) \<Rightarrow> (OutOfFuel, w1))"

definition getDependencies_cb :: "installer \<Rightarrow> package \<Rightarrow> (string \<times> string) list \<Rightarrow> task" where
  "getDependencies_cb inst p deps w = batch_end None (map (dep_cb inst p) deps) w"

text \<open>The two other tasks of \<^verbatim>\<open>reallyInstall\<close>'s batch (index.js:355 and 362): the error
  of \<^verbatim>\<open>mkdir\<close> is not looked at.\<close>

definition write_cb :: "env \<Rightarrow> package \<Rightarrow> manifest \<Rightarrow> task" where
  "write_cb e p js w =
     (let w1 = snd (mkdirp (dirname_cb e p) w);
          r = fs_writeFile (join_cb e p ''component.json'') (Json js) w1
      in (Return (fst r), snd r))"

definition files_cb :: "env \<Rightarrow> package \<Rightarrow> string list \<Rightarrow> task" where
  "files_cb e p fl w = getFiles_cb e p fl (snd (mkdirp (dirname_cb e p) w))"

definition fetched_cb :: "installer \<Rightarrow> env \<Rightarrow> package \<Rightarrow> manifest \<Rightarrow> task" where
  "fetched_cb inst e p js0 w =
     (let fl = transfer_set js0;
          js = with_repo p js0;
          deps = (case dependencies js of
                    None \<Rightarrow> []
                  | Some ds \<Rightarrow> [getDependencies_cb inst p ds])
      in batch_end None (deps @ [write_cb e p js, files_cb e p fl]) w)"

text \<open>\<^verbatim>\<open>next\<close> with no mirror left (index.js:313): destroy, then emit the error.\<close>

definition exhausted_cb :: "env \<Rightarrow> package \<Rightarrow> world \<Rightarrow> unit outcome \<times> package \<times> world" where
  "exhausted_cb e p w =
     (let p0 = p\<lparr>remote := None\<rparr>;
          r = rimraf e (dirname_cb e p0) w;
          w1 = (case fst r of
                  None \<Rightarrow> snd r
                | Some x \<Rightarrow> say [Emit (slug p0) (ErrorEv x)] (snd r))
      in (Pending, p0, say [Emit (slug p0) (ErrorEv (cant_find_remote p0))] w1))"

definition ended :: "unit outcome \<times> package \<times> world \<Rightarrow> unit outcome \<times> package \<times> world" where
  "ended r = (case r of (Pending, q, w) \<Rightarrow> (Return (), q, w) | _ \<Rightarrow> r)"

text \<open>\<^verbatim>\<open>function next()\<close> of \<^verbatim>\<open>reallyInstall\<close> (index.js:311), on the mirrors not yet
  tried. \<^verbatim>\<open>self.once('error', next)\<close> makes every error emitted during an attempt start
  the next attempt. After an error of the batch, \<^verbatim>\<open>end\<close> is emitted all the same.\<close>

fun next_cb :: "installer \<Rightarrow> env \<Rightarrow> package \<Rightarrow> url list \<Rightarrow> world \<Rightarrow> unit outcome \<times> package \<times> world" where
  "next_cb inst e p [] w = exhausted_cb e p w"
| "next_cb inst e p (r # rs) w =
     (if r = [] then exhausted_cb e p w
      else
        let last = (rs = []);
            p1 = p\<lparr>remote := Some (butlast (href e r))\<rparr>
        in case getJSON_cb e p1 w of
             (Inl err, w1) \<Rightarrow>
               next_cb inst e p1 rs
                 (say [Emit (slug p1) (ErrorEv (err\<lparr>fatal := Some (status err \<noteq> Some 404 \<or> last)\<rparr>))] w1)
           | (Inr js, w1) \<Rightarrow>
               (case fetched_cb inst e p1 js w1 of
                  (Return None, w2) \<Rightarrow> (Return (), p1, say [Emit (slug p1) End] w2)
                | (Return (Some err), w2) \<Rightarrow>
                    ended (next_cb inst e p1 rs
                      (say [Emit (slug p1) (ErrorEv (err\<lparr>fatal := Some last\<rparr>)), Emit (slug p1) End] w2))
                | (Throw x, w2) \<Rightarrow> (Throw x, p1, w2)
                | (Pending, w2) \<Rightarrow> (Pending, p1, w2)
                | (OutOfFuel, w2) \<Rightarrow> (OutOfFuel, p1, w2)))"

definition reallyInstall_cb :: "installer \<Rightarrow> env \<Rightarrow> package \<Rightarrow> world \<Rightarrow> unit outcome \<times> package \<times> world" where
  "reallyInstall_cb inst e p w = next_cb inst e p (remotes p) w"

text \<open>\<^verbatim>\<open>install\<close> (index.js:279); for a package whose slug was in flight when it was
  constructed, \<^verbatim>\<open>install\<close> is \<^verbatim>\<open>emit('end')\<close> (index.js:70).\<close>

definition install_body_cb :: "installer \<Rightarrow> env \<Rightarrow> package \<Rightarrow> world \<Rightarrow> unit outcome \<times> package \<times> world" where
  "install_body_cb inst e p w =
     (if inFlightFlag p then (Return (), p, say [Emit (slug p) End] w)
      else if CHR ''/'' \<notin> set (name p) then
        (Pending, p, say [Emit (slug p) (ErrorEv (invalid_name p))] w)
      else
        let f = join_cb e p ''component.json'';
            w1 = say [FsExists f] w
        in if fs w f \<noteq> None \<and> \<not> force p then (Return (), p, say [Emit (slug p) Exists] w1)
           else reallyInstall_cb inst e p w1)"

fun install_cb :: "nat \<Rightarrow> env \<Rightarrow> package \<Rightarrow> world \<Rightarrow> unit outcome \<times> package \<times> world" where
  "install_cb 0 e = install_body_cb (\<lambda>p w. (OutOfFuel, p, w)) e"
| "install_cb (Suc n) e = install_body_cb (install_cb n e) e"

text \<open>One installation task: construct the package, then install it.\<close>

definition task_cb :: "nat \<Rightarrow> env \<Rightarrow> string \<Rightarrow> string \<Rightarrow> options \<Rightarrow> world \<Rightarrow> unit outcome \<times> world" where
  "task_cb n e pkg v opts w =
     andThen (Package_cb pkg v opts w) (\<lambda>p w1. forget (install_cb n e p w1))"

definition task_gen :: "nat \<Rightarrow> env \<Rightarrow> string \<Rightarrow> string \<Rightarrow> options \<Rightarrow> world \<Rightarrow> unit outcome \<times> world" where
  "task_gen n e pkg v opts w =
     andThen (Package_gen pkg v opts w) (\<lambda>p w1. forget (install_gen n e p w1))"

section \<open>A concrete installation\<close>

text \<open>The inputs of the scenarios below: an empty world, a network given by a table
  (every other URL answers 404), Node's \<^verbatim>\<open>url.parse\<close> on a mirror that is a bare host
  (the \<^verbatim>\<open>href\<close> gains a trailing slash), and the package \<^verbatim>\<open>component/tip@0.3.0\<close> of the
  test file.\<close>

definition manifest0 :: manifest where
  "manifest0 =
     \<lparr>scripts = None, styles = None, templates = None, files = None, images = None,
      fonts = None, json = None, dependencies = None, repo = None\<rparr>"

definition tip_manifest :: manifest where
  "tip_manifest = manifest0\<lparr>scripts := Some [''index.js''], styles := Some [''a.css'']\<rparr>"

definition world0 :: world where
  "world0 = \<lparr>inFlight = {}, fs = (\<lambda>_. None), log = []\<rparr>"

definition serve :: "(url \<times> reply) list \<Rightarrow> url \<Rightarrow> reply" where
  "serve tbl u = (case map_of tbl u of Some r \<Rightarrow> r | None \<Rightarrow> Response 404 manifest0)"

definition status_name :: "nat \<Rightarrow> string" where
  "status_name s = (if s = 200 then ''OK'' else if s = 404 then ''Not Found'' else ''undefined'')"

definition node_env :: "(url \<Rightarrow> reply) \<Rightarrow> env" where
  "node_env n =
     \<lparr>cwd = ''/w'', href = (\<lambda>u. u @ ''/''), STATUS_CODES = status_name, net = n,
      rimraf_error = (\<lambda>_. None)\<rparr>"

definition two_mirrors :: options where
  "two_mirrors = no_options\<lparr>opt_remotes := Some [''https://m1'', ''https://m2'']\<rparr>"

text \<open>The second mirror answers the manifest request with status \<open>s\<close> and serves both
  files; the first mirror has nothing.\<close>

definition m2_serves :: "nat \<Rightarrow> url \<Rightarrow> reply" where
  "m2_serves s =
     serve
       [(''https://m2/component/tip/0.3.0/component.json'', Response s tip_manifest),
        (''https://m2/component/tip/0.3.0/index.js'', Response 200 manifest0),
        (''https://m2/component/tip/0.3.0/a.css'', Response 200 manifest0)]"

definition one_mirror :: options where
  "one_mirror = no_options\<lparr>opt_remotes := Some [''https://m2'']\<rparr>"

definition m2_then_m1 :: options where
  "m2_then_m1 = no_options\<lparr>opt_remotes := Some [''https://m2'', ''https://m1'']\<rparr>"

text \<open>A forced reinstall from a single mirror that has nothing, over an installed copy.\<close>

definition forced_m1 :: options where
  "forced_m1 = no_options\<lparr>opt_remotes := Some [''https://m1''], opt_force := True\<rparr>"

definition installed_world :: world where
  "installed_world =
     world0\<lparr>fs := [''/w/components/component-tip'' \<mapsto> Dir,
                    ''/w/components/component-tip/component.json'' \<mapsto> Json tip_manifest,
                    ''/w/components/component-tip/index.js''
                      \<mapsto> Blob ''https://m2/component/tip/0.3.0/index.js'']\<rparr>"

text \<open>A mirror that answers the manifest request with the status the generator revision
  accepts, and has none of the files.\<close>

definition m2_manifest_only :: "url \<Rightarrow> reply" where
  "m2_manifest_only =
     serve [(''https://m2/component/tip/0.3.0/component.json'', Response 400 tip_manifest)]"

text \<open>The package object of \<^verbatim>\<open>component/tip@0.3.0\<close> with two mirrors, and an installer of
  dependencies that is never called in the scenarios.\<close>

definition tip :: package where
  "tip =
     \<lparr>name = ''component/tip'', slug = ''component/tip@0.3.0'', dest = ''components'',
      remotes = [''https://m1'', ''https://m2''], force = False, version = ''0.3.0'',
      concurrency = None, remote = None, inFlightFlag = False, exists_flag = False\<rparr>"

text \<open>A package whose name has no namespace.\<close>

definition bare :: package where
  "bare =
     \<lparr>name = ''tip'', slug = ''tip@1.0.0'', dest = ''components'',
      remotes = [''https://m1'', ''https://m2''], force = False, version = ''1.0.0'',
      concurrency = None, remote = None, inFlightFlag = False, exists_flag = False\<rparr>"

definition no_child :: installer where
  "no_child p w = (OutOfFuel, p, w)"

section \<open>Notions used in the proofs\<close>

text \<open>The slug the constructor computes; an installer, or a task, that removes nothing
  from the registry of slugs in flight.\<close>

definition slug_of :: "string \<Rightarrow> string \<Rightarrow> slug" where
  "slug_of pkg v = pkg @ ''@'' @ (if v = ''*'' then ''master'' else v)"

definition keeps_inst :: "installer \<Rightarrow> bool" where
  "keeps_inst inst = (\<forall>S p w. S \<subseteq> inFlight w \<longrightarrow> S \<subseteq> inFlight (snd (snd (inst p w))))"

definition keeps_task :: "task \<Rightarrow> bool" where
  "keeps_task t = (\<forall>S w. S \<subseteq> inFlight w \<longrightarrow> S \<subseteq> inFlight (snd (t w)))"

section \<open>Properties of the transfer set\<close>

lemma transfer_set_concat:
  "transfer_set js =
     concat (map (case_option [] id)
       [scripts js, styles js, templates js, files js, images js, fonts js, json js])"
  by (simp add: transfer_set_def concat_if_def split: option.splits)

lemma transfer_set_example: "transfer_set tip_manifest = [''index.js'', ''a.css'']"
  by (simp add: transfer_set_concat tip_manifest_def manifest0_def)

text \<open>
  Claim C7. For every fetched manifest, the list of files that \<^verbatim>\<open>reallyInstall\<close> hands to
  \<^verbatim>\<open>getFiles\<close> is the concatenation of the manifest's lists \<^verbatim>\<open>scripts\<close>, \<^verbatim>\<open>styles\<close>,
  \<^verbatim>\<open>templates\<close>, \<^verbatim>\<open>files\<close>, \<^verbatim>\<open>images\<close>, \<^verbatim>\<open>fonts\<close>, \<^verbatim>\<open>json\<close> in this order, an absent
  list contributing nothing; in both revisions.
\<close>

theorem transfer_set_handed_to_getFiles:
  "transfer_set js =
     concat (map (case_option [] id)
       [scripts js, styles js, templates js, files js, images js, fonts js, json js])
   \<and> fetched_cb inst e p js w =
       batch_end None
         ((case dependencies js of None \<Rightarrow> [] | Some ds \<Rightarrow> [getDependencies_cb inst p ds])
          @ [write_cb e p (with_repo p js),
             files_cb e p (concat (map (case_option [] id)
               [scripts js, styles js, templates js, files js, images js, fonts js, json js]))]) w
   \<and> fetched_gen inst e p js w =
       andThen (case dependencies js of
                  None \<Rightarrow> (Return (), w)
                | Some deps \<Rightarrow> getDependencies_gen inst p deps w) (\<lambda>_ w1.
       andThen (mkdir_gen (dirname_gen e p) w1) (\<lambda>_ w2.
       andThen (writeFile_gen e p ''component.json'' (Json (with_repo p js)) w2) (\<lambda>_ w3.
         getFiles_gen e p (concat (map (case_option [] id)
           [scripts js, styles js, templates js, files js, images js, fonts js, json js])) w3)))"
  by (simp add: fetched_cb_def fetched_gen_def with_repo_def transfer_set_concat)

section \<open>Identity: URL, slug and directory\<close>

lemma resolve_join_eq:
  "resolve_join (wd # ps) = resolve_join (wd # qs) \<Longrightarrow> resolve wd ps = resolve wd qs"
  by (simp only: resolve_def)

lemma tip_constructed_gen:
  "\<exists>p. Package_gen ''component/tip'' ''0.3.0'' no_options w = (Return p, w)
     \<and> url p ''component.json'' = ''https://raw.github.com/component/tip/0.3.0/component.json''
     \<and> slug p = ''component/tip@0.3.0''
     \<and> dirname_gen e p = resolve (cwd e) [''components/component-tip'']"
  by (simp add: Package_gen_def no_options_def or_default_def url_def dirname_gen_def
      split_slash_def isAbsolute_def resolve_join_eq Let_def)

lemma tip_constructed_cb:
  "\<exists>p. fst (Package_cb ''component/tip'' ''0.3.0'' no_options w) = Return p
     \<and> url p ''component.json'' = ''https://raw.github.com/component/tip/0.3.0/component.json''
     \<and> slug p = ''component/tip@0.3.0''
     \<and> dirname_cb e p = resolve (cwd e) [''components/component-tip'']"
  by (simp add: Package_cb_def no_options_def or_default_def url_def dirname_cb_def
      split_slash_def isAbsolute_def toLowerCase_def lower_char_def resolve_join_eq Let_def)

lemma resolve_tip_directory:
  "resolve ''/home/u'' [''components/component-tip''] = ''/home/u/components/component-tip''"
  by (simp add: resolve_def isAbsolute_def split_slash_def)

text \<open>
  Claim C8. \<^verbatim>\<open>url(file)\<close> is the concatenation of the mirror, the name, the version and
  the file, separated by \<^verbatim>\<open>/\<close>, the mirror being the bound one or else the first of the
  list. The package \<^verbatim>\<open>component/tip\<close>, version \<^verbatim>\<open>0.3.0\<close>, constructed without options, has
  the manifest URL \<^verbatim>\<open>https://raw.github.com/component/tip/0.3.0/component.json\<close>, the slug
  \<^verbatim>\<open>component/tip@0.3.0\<close> and the directory \<^verbatim>\<open>components/component-tip\<close> resolved against
  the working directory (as the test file states it), in both revisions; from
  \<^verbatim>\<open>/home/u\<close> that is \<^verbatim>\<open>/home/u/components/component-tip\<close>.
\<close>

theorem url_slug_dirname_of_tip:
  "url (p\<lparr>remote := Some m\<rparr>) f = m @ ''/'' @ name p @ ''/'' @ version p @ ''/'' @ f
   \<and> url (p\<lparr>remote := None, remotes := m # ms\<rparr>) f = m @ ''/'' @ name p @ ''/'' @ version p @ ''/'' @ f
   \<and> (\<exists>q. Package_gen ''component/tip'' ''0.3.0'' no_options w = (Return q, w)
         \<and> url q ''component.json'' = ''https://raw.github.com/component/tip/0.3.0/component.json''
         \<and> slug q = ''component/tip@0.3.0''
         \<and> dirname_gen e q = resolve (cwd e) [''components/component-tip''])
   \<and> (\<exists>q. fst (Package_cb ''component/tip'' ''0.3.0'' no_options w) = Return q
         \<and> url q ''component.json'' = ''https://raw.github.com/component/tip/0.3.0/component.json''
         \<and> slug q = ''component/tip@0.3.0''
         \<and> dirname_cb e q = resolve (cwd e) [''components/component-tip''])
   \<and> resolve ''/home/u'' [''components/component-tip''] = ''/home/u/components/component-tip''"
  using tip_constructed_gen [of w e] tip_constructed_cb [of w e] resolve_tip_directory
  by (simp add: url_def)

section \<open>The constructor\<close>

text \<open>
  Claim C10. With an empty name the constructor throws \<^verbatim>\<open>pkg required\<close>, with an empty
  version \<^verbatim>\<open>version required\<close>, and the world is as before: nothing was read or
  written and the slug was not marked in flight. With a name and a version that are not
  empty the constructor returns a package; the callback revision then marks the slug,
  the generator revision leaves the world alone.
\<close>

theorem constructor_throws_only_on_empty:
  "(pkg = [] \<longrightarrow>
      Package_cb pkg v opts w = (Throw (Error ''pkg required''), w)
      \<and> Package_gen pkg v opts w = (Throw (Error ''pkg required''), w))
   \<and> (pkg \<noteq> [] \<and> v = [] \<longrightarrow>
      Package_cb pkg v opts w = (Throw (Error ''version required''), w)
      \<and> Package_gen pkg v opts w = (Throw (Error ''version required''), w))
   \<and> (pkg \<noteq> [] \<and> v \<noteq> [] \<longrightarrow>
      (\<exists>q. Package_cb pkg v opts w = (Return q, w\<lparr>inFlight := insert (slug q) (inFlight w)\<rparr>))
      \<and> (\<exists>q. Package_gen pkg v opts w = (Return q, w)))"
  by (simp add: Package_cb_def Package_gen_def Let_def)

theorem constructor_throws_only_on_empty_witness:
  "Package_gen [] ''0.3.0'' no_options world0 = (Throw (Error ''pkg required''), world0)
   \<and> Package_cb ''component/tip'' [] no_options world0 = (Throw (Error ''version required''), world0)
   \<and> (\<exists>q. Package_cb ''component/tip'' ''*'' no_options world0
            = (Return q, world0\<lparr>inFlight := insert (slug q) (inFlight world0)\<rparr>))"
  using constructor_throws_only_on_empty [of "[]" "''0.3.0''" no_options world0]
    constructor_throws_only_on_empty [of "''component/tip''" "[]" no_options world0]
    constructor_throws_only_on_empty [of "''component/tip''" "''*''" no_options world0]
  by simp

section \<open>The manifest fetch\<close>

text \<open>The generator revision accepts the status 400 and no other, where the download of
  a file in the same revision (\<^verbatim>\<open>getFile\<close>, index.js:610) and both fetches of the
  callback revision compare with 200.\<close>

lemma getJSON_gen_only_400:
  "(\<exists>body. fst (getJSON_gen e p w) = Return body)
     \<longleftrightarrow> (\<exists>body. net e (url p ''component.json'') = Response 400 body)"
  by (auto simp add: getJSON_gen_def Let_def split: reply.splits)

text \<open>
  Claim C4, as amended. \<^verbatim>\<open>getJSON\<close> of the callback revision calls back with the parsed
  body exactly when the response has the status 200; for a response with any other
  status, 201 to 299 included, it calls back with the error of \<^verbatim>\<open>error(res, url)\<close>,
  whose \<^verbatim>\<open>status\<close> is the status code and whose message holds the URL.
\<close>

theorem getJSON_cb_succeeds_exactly_on_200:
  "((\<exists>body. fst (getJSON_cb e p w) = Inr body)
      \<longleftrightarrow> (\<exists>body. net e (url p ''component.json'') = Response 200 body))
   \<and> (net e (url p ''component.json'') = Response 200 body \<longrightarrow> fst (getJSON_cb e p w) = Inr body)
   \<and> (net e (url p ''component.json'') = Response s body \<and> s \<noteq> 200 \<longrightarrow>
        fst (getJSON_cb e p w) = Inl (error e s (url p ''component.json''))
        \<and> status (error e s (url p ''component.json'')) = Some s
        \<and> message (error e s (url p ''component.json'')) =
            ''failed to fetch '' @ url p ''component.json'' @ '', got '' @ string_of_nat s @ '' ''
              @ [CHR 0x22] @ STATUS_CODES e s @ [CHR 0x22])"
  by (auto simp add: getJSON_cb_def Let_def error_def Error_def split: reply.splits)

text \<open>The claim as stated fails at the status 204: a success code, and \<^verbatim>\<open>getJSON\<close> of the
  callback revision answers with an error.\<close>

theorem getJSON_cb_rejects_204:
  "net (node_env (m2_serves 204)) (url (tip\<lparr>remote := Some ''https://m2''\<rparr>) ''component.json'')
     = Response 204 tip_manifest
   \<and> (200::nat) \<le> 204 \<and> (204::nat) \<le> 299
   \<and> fst (getJSON_cb (node_env (m2_serves 204)) (tip\<lparr>remote := Some ''https://m2''\<rparr>) world0)
      = Inl (error (node_env (m2_serves 204)) 204 ''https://m2/component/tip/0.3.0/component.json'')"
  by code_simp

theorem getJSON_cb_succeeds_exactly_on_200_witness:
  "fst (getJSON_cb (node_env (m2_serves 200)) (tip\<lparr>remote := Some ''https://m2''\<rparr>) world0) = Inr tip_manifest
   \<and> fst (getJSON_cb (node_env (m2_serves 204)) (tip\<lparr>remote := Some ''https://m2''\<rparr>) world0)
      = Inl (error (node_env (m2_serves 204)) 204 (url (tip\<lparr>remote := Some ''https://m2''\<rparr>) ''component.json''))"
proof -
  have a: "net (node_env (m2_serves 200)) (url (tip\<lparr>remote := Some ''https://m2''\<rparr>) ''component.json'')
             = Response 200 tip_manifest"
    by (simp add: node_env_def m2_serves_def serve_def url_def tip_def)
  have b: "net (node_env (m2_serves 204)) (url (tip\<lparr>remote := Some ''https://m2''\<rparr>) ''component.json'')
             = Response 204 tip_manifest \<and> (204::nat) \<noteq> 200"
    by (simp add: node_env_def m2_serves_def serve_def url_def tip_def)
  show ?thesis
    using a b
      getJSON_cb_succeeds_exactly_on_200 [of "node_env (m2_serves 200)" "tip\<lparr>remote := Some ''https://m2''\<rparr>" world0 tip_manifest 200]
      getJSON_cb_succeeds_exactly_on_200 [of "node_env (m2_serves 204)" "tip\<lparr>remote := Some ''https://m2''\<rparr>" world0 tip_manifest 204]
    by blast
qed

section \<open>Names without a namespace\<close>

text \<open>
  Claim C5, as amended. For a name without \<^verbatim>\<open>/\<close>, install makes no request and touches
  no file. The generator revision throws the invalid-name error, after marking the slug,
  when the slug is not in flight, and returns at once when it is. The callback revision
  emits the invalid-name error and nothing else when the slug was not in flight at
  construction, and emits \<^verbatim>\<open>end\<close> when it was.
\<close>

theorem install_without_namespace:
  "CHR ''/'' \<notin> set (name p) \<Longrightarrow>
     install_gen n e p w =
       (if slug p \<in> inFlight w then (Return (), p, w)
        else (Throw (invalid_name p), p, w\<lparr>inFlight := insert (slug p) (inFlight w)\<rparr>))
     \<and> install_cb n e p w =
       (if inFlightFlag p then (Return (), p, say [Emit (slug p) End] w)
        else (Pending, p, say [Emit (slug p) (ErrorEv (invalid_name p))] w))"
  by (cases n) (simp_all add: install_body_gen_def install_body_cb_def Let_def)

text \<open>The claim as stated fails for the second installation of a name without \<^verbatim>\<open>/\<close>: it
  ends without the invalid-name error, in both revisions.\<close>

theorem second_install_of_invalid_name_succeeds:
  "CHR ''/'' \<notin> set ''tip''
   \<and> fst (task_gen 0 (node_env (m2_serves 200)) ''tip'' ''1.0.0'' no_options
        (snd (task_gen 0 (node_env (m2_serves 200)) ''tip'' ''1.0.0'' no_options world0))) = Return ()
   \<and> fst (task_cb 0 (node_env (m2_serves 200)) ''tip'' ''1.0.0'' no_options
        (snd (task_cb 0 (node_env (m2_serves 200)) ''tip'' ''1.0.0'' no_options world0))) = Return ()"
  by code_simp

theorem install_without_namespace_witness:
  "CHR ''/'' \<notin> set (name bare)
   \<and> install_gen 0 (node_env (m2_serves 200)) bare world0
       = (Throw (invalid_name bare), bare, world0\<lparr>inFlight := insert (slug bare) (inFlight world0)\<rparr>)
   \<and> install_cb 0 (node_env (m2_serves 200)) bare world0
       = (Pending, bare, say [Emit (slug bare) (ErrorEv (invalid_name bare))] world0)"
proof -
  have h: "CHR ''/'' \<notin> set (name bare)" by (simp add: bare_def)
  have f: "slug bare \<notin> inFlight world0" "\<not> inFlightFlag bare" by (simp_all add: bare_def world0_def)
  show ?thesis
    using h f install_without_namespace [OF h, of 0 "node_env (m2_serves 200)" world0]
    by (simp del: install_gen.simps install_cb.simps)
qed

section \<open>The registry of slugs in flight\<close>

text \<open>No step of either revision removes a slug from \<^verbatim>\<open>inFlight\<close>.\<close>

lemma inFlight_say [simp]: "inFlight (say es w) = inFlight w"
  by (simp add: say_def)

lemma inFlight_mkdirp [simp]: "inFlight (snd (mkdirp d w)) = inFlight w"
  by (simp add: mkdirp_def split: option.splits node.splits)

lemma inFlight_fs_writeFile [simp]: "inFlight (snd (fs_writeFile f n w)) = inFlight w"
  by (simp add: fs_writeFile_def)

lemma inFlight_rimraf [simp]: "inFlight (snd (rimraf e d w)) = inFlight w"
  by (simp add: rimraf_def split: option.splits)

lemma inFlight_readJSON [simp]: "inFlight (snd (readJSON f w)) = inFlight w"
  by (simp add: readJSON_def split: option.splits node.splits)

lemma inFlight_download [simp]: "inFlight (download u d s w) = inFlight w"
  by (simp add: download_def)

lemma inFlight_raise_if [simp]: "inFlight (snd (raise_if r)) = inFlight (snd r)"
  by (cases r) (simp add: raise_if_def split: option.splits)

lemma inFlight_getJSON_cb [simp]: "inFlight (snd (getJSON_cb e p w)) = inFlight w"
  by (simp add: getJSON_cb_def Let_def split: reply.splits)

lemma inFlight_getJSON_gen [simp]: "inFlight (snd (getJSON_gen e p w)) = inFlight w"
  by (simp add: getJSON_gen_def Let_def split: reply.splits)

lemma inFlight_Package_gen [simp]: "snd (Package_gen n v opts w) = w"
  by (simp add: Package_gen_def Let_def)

lemma inFlight_Package_cb: "inFlight w \<subseteq> inFlight (snd (Package_cb n v opts w))"
  by (auto simp add: Package_cb_def Let_def)

lemma keeps_andThen:
  assumes "S \<subseteq> inFlight (snd r)"
    and "\<And>x w1. S \<subseteq> inFlight w1 \<Longrightarrow> S \<subseteq> inFlight (snd (k x w1))"
  shows "S \<subseteq> inFlight (snd (andThen r k))"
  using assms by (cases r) (auto simp add: andThen_def split: outcome.splits)

lemma keeps_getFile_gen: "S \<subseteq> inFlight w \<Longrightarrow> S \<subseteq> inFlight (snd (getFile_gen e p f w))"
  unfolding getFile_gen_def Let_def
  by (rule keeps_andThen) (auto simp add: mkdir_gen_def split: reply.splits)

lemma keeps_getFiles_gen: "S \<subseteq> inFlight w \<Longrightarrow> S \<subseteq> inFlight (snd (getFiles_gen e p fl w))"
proof (induction fl arbitrary: w)
  case Nil
  then show ?case by simp
next
  case (Cons f fl)
  show ?case
    unfolding getFiles_gen.simps
  proof (rule keeps_andThen)
    show "S \<subseteq> inFlight (snd (getFile_gen e p f w))"
      by (rule keeps_getFile_gen) (rule Cons.prems)
  next
    fix x :: unit and w1 :: world
    assume "S \<subseteq> inFlight w1"
    then show "S \<subseteq> inFlight (snd (getFiles_gen e p fl w1))" by (rule Cons.IH)
  qed
qed

lemma keeps_getDependencies_gen:
  "keeps_inst inst \<Longrightarrow> S \<subseteq> inFlight w \<Longrightarrow> S \<subseteq> inFlight (snd (getDependencies_gen inst p deps w))"
proof (induction deps arbitrary: w)
  case Nil
  then show ?case by simp
next
  case (Cons d deps)
  obtain n v where d: "d = (n, v)" by (cases d)
  show ?case
    unfolding d getDependencies_gen.simps
  proof (rule keeps_andThen, goal_cases)
    case 1
    then show ?case using Cons.prems by simp
  next
    case (2 x w1)
    show ?case
    proof (rule keeps_andThen, goal_cases)
      case 1
      then show ?case using 2 Cons.prems(1) by (simp add: forget_def keeps_inst_def)
    next
      case (2 y w2)
      then show ?case using Cons.IH Cons.prems(1) by simp
    qed
  qed
qed

lemma keeps_fetched_gen:
  "keeps_inst inst \<Longrightarrow> S \<subseteq> inFlight w \<Longrightarrow> S \<subseteq> inFlight (snd (fetched_gen inst e p js w))"
  unfolding fetched_gen_def Let_def
  apply (rule keeps_andThen)
   apply (simp add: keeps_getDependencies_gen split: option.splits)
  apply (rule keeps_andThen)
   apply (simp add: mkdir_gen_def)
  apply (rule keeps_andThen)
   apply (simp add: writeFile_gen_def)
  apply (simp add: keeps_getFiles_gen)
  done

lemma keeps_failed_gen: "S \<subseteq> inFlight w \<Longrightarrow> S \<subseteq> inFlight (snd (snd (failed_gen e p w)))"
  by (simp add: failed_gen_def destroy_gen_def raise_if_def rimraf_def split: prod.splits option.splits outcome.splits)

lemma keeps_mirrors_gen:
  "keeps_inst inst \<Longrightarrow> S \<subseteq> inFlight w \<Longrightarrow> S \<subseteq> inFlight (snd (snd (mirrors_gen inst e p rs w)))"
proof (induction rs arbitrary: p w)
  case Nil
  then show ?case by (simp add: keeps_failed_gen)
next
  case (Cons r rs)
  let ?p1 = "p\<lparr>remote := Some (butlast (href e r))\<rparr>"
  obtain o1 w1 where g: "getJSON_gen e ?p1 w = (o1, w1)" by (cases "getJSON_gen e ?p1 w")
  have w1: "S \<subseteq> inFlight w1" using inFlight_getJSON_gen [of e ?p1 w] g Cons.prems(2) by simp
  show ?case
  proof (cases "r = []")
    case True
    then show ?thesis using Cons.prems by (simp add: keeps_failed_gen)
  next
    case False
    show ?thesis
    proof (cases o1)
      case (Return js)
      obtain o2 w2 where f: "fetched_gen inst e ?p1 js w1 = (o2, w2)" by (cases "fetched_gen inst e ?p1 js w1")
      have w2: "S \<subseteq> inFlight w2" using keeps_fetched_gen [OF Cons.prems(1) w1, of e ?p1 js] f by simp
      show ?thesis using False g Return f w2 Cons.IH [OF Cons.prems(1) w2]
        by (cases o2) (simp_all add: Let_def)
    next
      case (Throw err)
      then show ?thesis using False g w1 Cons.IH [OF Cons.prems(1) w1] by (simp add: Let_def)
    next
      case Pending
      then show ?thesis using False g w1 by (simp add: Let_def)
    next
      case OutOfFuel
      then show ?thesis using False g w1 by (simp add: Let_def)
    qed
  qed
qed

lemma keeps_install_body_gen:
  assumes "keeps_inst inst"
  shows "keeps_inst (install_body_gen inst e)"
  unfolding keeps_inst_def
proof (intro allI impI)
  fix S :: "slug set" and p :: package and w :: world
  assume S: "S \<subseteq> inFlight w"
  let ?w1 = "w\<lparr>inFlight := insert (slug p) (inFlight w)\<rparr>"
  obtain o2 w2 where g: "getLocalJSON_gen e p ?w1 = (o2, w2)" by (cases "getLocalJSON_gen e p ?w1")
  have "inFlight w2 = inFlight ?w1" using g inFlight_readJSON [of "join_gen e p ''component.json''" ?w1]
    by (simp add: getLocalJSON_gen_def)
  then have w2: "S \<subseteq> inFlight w2" using S by auto
  have r: "\<And>q. S \<subseteq> inFlight (snd (snd (reallyInstall_gen inst e q w2)))"
    using keeps_mirrors_gen [OF assms w2] by (simp add: reallyInstall_gen_def)
  show "S \<subseteq> inFlight (snd (snd (install_body_gen inst e p w)))"
    using S g w2 r
    by (cases o2) (auto simp add: install_body_gen_def Let_def)
qed

lemma keeps_install_gen: "keeps_inst (install_gen n e)"
proof (induction n)
  case 0
  show ?case unfolding install_gen.simps
    by (rule keeps_install_body_gen) (simp add: keeps_inst_def)
next
  case (Suc n)
  show ?case unfolding install_gen.simps
    by (rule keeps_install_body_gen) (rule Suc)
qed

lemma install_gen_marks: "slug p \<in> inFlight (snd (snd (install_gen n e p w)))"
proof -
  have body: "\<And>inst. keeps_inst inst \<Longrightarrow> slug p \<in> inFlight (snd (snd (install_body_gen inst e p w)))"
  proof -
    fix inst :: installer
    assume k: "keeps_inst inst"
    let ?w1 = "w\<lparr>inFlight := insert (slug p) (inFlight w)\<rparr>"
    obtain o2 w2 where g: "getLocalJSON_gen e p ?w1 = (o2, w2)" by (cases "getLocalJSON_gen e p ?w1")
    have "inFlight w2 = inFlight ?w1" using g inFlight_readJSON [of "join_gen e p ''component.json''" ?w1]
      by (simp add: getLocalJSON_gen_def)
    then have w2: "{slug p} \<subseteq> inFlight w2" by auto
    have r: "\<And>q. {slug p} \<subseteq> inFlight (snd (snd (reallyInstall_gen inst e q w2)))"
      using keeps_mirrors_gen [OF k w2] by (simp add: reallyInstall_gen_def)
    show "slug p \<in> inFlight (snd (snd (install_body_gen inst e p w)))"
      using g w2 r
      by (cases o2) (auto simp add: install_body_gen_def Let_def)
  qed
  show ?thesis
  proof (cases n)
    case 0
    then show ?thesis using body [of "\<lambda>p w. (OutOfFuel, p, w)"] by (simp add: keeps_inst_def)
  next
    case (Suc m)
    then show ?thesis using body [OF keeps_install_gen [of m e]] by simp
  qed
qed

lemma install_gen_in_flight: "slug q \<in> inFlight w \<Longrightarrow> install_gen m e q w = (Return (), q, w)"
  by (cases m) (simp_all add: install_body_gen_def)

lemma keeps_batch_run:
  "\<forall>t \<in> set ts. keeps_task t \<Longrightarrow> S \<subseteq> inFlight w \<Longrightarrow>
     S \<subseteq> inFlight (snd (batch_run limit allow err pend ts w))"
proof (induction ts arbitrary: allow err pend w)
  case Nil
  then show ?case by simp
next
  case (Cons t ts)
  obtain o1 w1 where t: "t w = (o1, w1)" by (cases "t w")
  have w1: "S \<subseteq> inFlight w1" using Cons.prems t by (auto simp add: keeps_task_def dest!: spec [of _ S] spec [of _ w])
  have ih: "\<And>allow err pend. S \<subseteq> inFlight (snd (batch_run limit allow err pend ts w1))"
    using Cons.IH Cons.prems(1) w1 by simp
  show ?case
    using t w1 ih Cons.prems(2)
    by (simp split: outcome.splits option.splits)
qed

lemma keeps_batch_end:
  "\<forall>t \<in> set ts. keeps_task t \<Longrightarrow> keeps_task (batch_end limit ts)"
  by (simp add: keeps_task_def batch_end_def keeps_batch_run)

lemma keeps_getFile_cb: "keeps_task (getFile_cb e p f)"
  by (simp add: keeps_task_def getFile_cb_def Let_def split: reply.splits)

lemma keeps_getFiles_cb: "keeps_task (getFiles_cb e p fl)"
proof -
  have "getFiles_cb e p fl = batch_end (batch_limit p) (map (getFile_cb e p) fl)"
    by (rule ext) (simp add: getFiles_cb_def)
  then show ?thesis by (simp add: keeps_batch_end keeps_getFile_cb)
qed

lemma keeps_dep_cb: "keeps_inst inst \<Longrightarrow> keeps_task (dep_cb inst p d)"
  unfolding keeps_task_def
proof (intro allI impI)
  fix S :: "slug set" and w :: world
  assume k: "keeps_inst inst" and S: "S \<subseteq> inFlight w"
  obtain o1 w1 where c: "Package_cb (fst d) (snd d) (child_options p) w = (o1, w1)"
    by (cases "Package_cb (fst d) (snd d) (child_options p) w")
  have w1: "S \<subseteq> inFlight w1" using inFlight_Package_cb [of w "fst d" "snd d" "child_options p"] c S by auto
  show "S \<subseteq> inFlight (snd (dep_cb inst p d w))"
  proof (cases o1)
    case (Return pkg)
    obtain o2 q w2 where i: "inst pkg (say [Emit (slug p) (DepEv (slug pkg))] w1) = (o2, q, w2)"
      by (cases "inst pkg (say [Emit (slug p) (DepEv (slug pkg))] w1)")
    have "S \<subseteq> inFlight w2" using k w1 i
      by (auto simp add: keeps_inst_def dest!: spec [of _ S] spec [of _ pkg] spec [of _ "say [Emit (slug p) (DepEv (slug pkg))] w1"])
    then show ?thesis using c Return i by (cases o2) (simp_all add: dep_cb_def)
  qed (use c w1 in \<open>simp_all add: dep_cb_def\<close>)
qed

lemma keeps_getDependencies_cb: "keeps_inst inst \<Longrightarrow> keeps_task (getDependencies_cb inst p deps)"
proof -
  assume k: "keeps_inst inst"
  have "getDependencies_cb inst p deps = batch_end None (map (dep_cb inst p) deps)"
    by (rule ext) (simp add: getDependencies_cb_def)
  then show ?thesis using k by (simp add: keeps_batch_end keeps_dep_cb)
qed

lemma keeps_write_cb: "keeps_task (write_cb e p js)"
  by (simp add: keeps_task_def write_cb_def Let_def)

lemma keeps_files_cb: "keeps_task (files_cb e p fl)"
  using keeps_getFiles_cb [of e p fl] by (simp add: keeps_task_def files_cb_def)

lemma keeps_fetched_cb: "keeps_inst inst \<Longrightarrow> keeps_task (fetched_cb inst e p js)"
proof -
  assume k: "keeps_inst inst"
  have "fetched_cb inst e p js =
      batch_end None ((case dependencies (with_repo p js) of None \<Rightarrow> [] | Some ds \<Rightarrow> [getDependencies_cb inst p ds])
        @ [write_cb e p (with_repo p js), files_cb e p (transfer_set js)])"
    by (rule ext) (simp add: fetched_cb_def Let_def)
  then show ?thesis using k
    by (simp add: keeps_batch_end keeps_write_cb keeps_files_cb keeps_getDependencies_cb split: option.splits)
qed

lemma keeps_exhausted_cb: "S \<subseteq> inFlight w \<Longrightarrow> S \<subseteq> inFlight (snd (snd (exhausted_cb e p w)))"
  by (simp add: exhausted_cb_def Let_def split: option.splits)

lemma snd_ended [simp]: "snd (snd (ended r)) = snd (snd r)"
  by (cases r) (simp add: ended_def split: outcome.splits)

lemma keeps_next_cb:
  "keeps_inst inst \<Longrightarrow> S \<subseteq> inFlight w \<Longrightarrow> S \<subseteq> inFlight (snd (snd (next_cb inst e p rs w)))"
proof (induction rs arbitrary: p w)
  case Nil
  then show ?case by (simp add: keeps_exhausted_cb)
next
  case (Cons r rs)
  let ?p1 = "p\<lparr>remote := Some (butlast (href e r))\<rparr>"
  obtain o1 w1 where g: "getJSON_cb e ?p1 w = (o1, w1)" by (cases "getJSON_cb e ?p1 w")
  have w1: "S \<subseteq> inFlight w1" using inFlight_getJSON_cb [of e ?p1 w] g Cons.prems(2) by simp
  show ?case
  proof (cases "r = []")
    case True
    then show ?thesis using Cons.prems by (simp add: keeps_exhausted_cb)
  next
    case False
    show ?thesis
    proof (cases o1)
      case (Inl err)
      then show ?thesis using False g w1 Cons.IH [OF Cons.prems(1)] by (simp add: Let_def)
    next
      case (Inr js)
      obtain o2 w2 where f: "fetched_cb inst e ?p1 js w1 = (o2, w2)" by (cases "fetched_cb inst e ?p1 js w1")
      have w2: "S \<subseteq> inFlight w2" using keeps_fetched_cb [OF Cons.prems(1), of e ?p1 js] w1 f
        by (auto simp add: keeps_task_def dest!: spec [of _ S] spec [of _ w1])
      show ?thesis using False g Inr f w2 Cons.IH [OF Cons.prems(1)]
        by (cases o2) (simp_all add: Let_def split: option.splits)
    qed
  qed
qed

lemma keeps_install_body_cb:
  assumes "keeps_inst inst"
  shows "keeps_inst (install_body_cb inst e)"
  unfolding keeps_inst_def
proof (intro allI impI)
  fix S :: "slug set" and p :: package and w :: world
  assume S: "S \<subseteq> inFlight w"
  show "S \<subseteq> inFlight (snd (snd (install_body_cb inst e p w)))"
    using S keeps_next_cb [OF assms, of S]
    by (simp add: install_body_cb_def Let_def reallyInstall_cb_def)
qed

lemma keeps_install_cb: "keeps_inst (install_cb n e)"
proof (induction n)
  case 0
  show ?case unfolding install_cb.simps
    by (rule keeps_install_body_cb) (simp add: keeps_inst_def)
next
  case (Suc n)
  show ?case unfolding install_cb.simps
    by (rule keeps_install_body_cb) (rule Suc)
qed

lemma install_cb_in_flight:
  "inFlightFlag q \<Longrightarrow> install_cb m e q w = (Return (), q, say [Emit (slug q) End] w)"
  by (cases m) (simp_all add: install_body_cb_def)

lemma keeps_instD:
  "keeps_inst inst \<Longrightarrow> S \<subseteq> inFlight w \<Longrightarrow> S \<subseteq> inFlight (snd (snd (inst p w)))"
  by (simp add: keeps_inst_def)

lemma Package_cb_returns:
  "pkg \<noteq> [] \<Longrightarrow> v \<noteq> [] \<Longrightarrow>
     \<exists>q. Package_cb pkg v opts w = (Return q, w\<lparr>inFlight := insert (slug_of pkg v) (inFlight w)\<rparr>)
       \<and> slug q = slug_of pkg v \<and> inFlightFlag q = (slug_of pkg v \<in> inFlight w)"
  by (cases "v = ''*''") (simp_all add: Package_cb_def Let_def slug_of_def)

lemma task_cb_marks:
  assumes "pkg \<noteq> []" "v \<noteq> []"
  shows "slug_of pkg v \<in> inFlight (snd (task_cb n e pkg v opts w))"
proof -
  obtain q where c: "Package_cb pkg v opts w = (Return q, w\<lparr>inFlight := insert (slug_of pkg v) (inFlight w)\<rparr>)"
    using Package_cb_returns [OF assms] by blast
  have "{slug_of pkg v} \<subseteq> inFlight (snd (snd (install_cb n e q (w\<lparr>inFlight := insert (slug_of pkg v) (inFlight w)\<rparr>))))"
    by (rule keeps_instD [OF keeps_install_cb]) simp
  then show ?thesis using c by (simp add: task_cb_def andThen_def forget_def)
qed

lemma task_cb_second:
  assumes "pkg \<noteq> []" "v \<noteq> []" "slug_of pkg v \<in> inFlight w1"
  shows "task_cb m e pkg v opts w1 = (Return (), say [Emit (slug_of pkg v) End] w1)"
proof -
  have w: "w1\<lparr>inFlight := insert (slug_of pkg v) (inFlight w1)\<rparr> = w1"
    using assms(3) by (simp add: insert_absorb)
  obtain q where c: "Package_cb pkg v opts w1 = (Return q, w1)" and q: "inFlightFlag q" "slug q = slug_of pkg v"
    using Package_cb_returns [OF assms(1,2), of opts w1] assms(3) w by auto
  show ?thesis using c q install_cb_in_flight [OF q(1), of m e w1]
    by (simp add: task_cb_def andThen_def forget_def)
qed

text \<open>
  Claim C6. The first installation of a slug marks it in \<^verbatim>\<open>inFlight\<close> (the generator
  revision in \<^verbatim>\<open>install\<close>, the callback revision in the constructor); no constructor and no
  installation, of any package, removes a slug that is marked; and in every later world
  that still holds the marks of the first installation, an installation of the same slug
  returns at once: the generator revision leaves the world as it is, the callback
  revision only emits \<^verbatim>\<open>end\<close>. So no manifest and no file is fetched a second time. An
  installation of the callback revision is the construction of a package followed by
  \<^verbatim>\<open>install\<close>.
\<close>

theorem second_install_fetches_nothing:
  "(slug q = slug p \<and> inFlight (snd (snd (install_gen n e p w))) \<subseteq> inFlight w2 \<longrightarrow>
      slug p \<in> inFlight (snd (snd (install_gen n e p w)))
      \<and> install_gen m e2 q w2 = (Return (), q, w2))
   \<and> (pkg \<noteq> [] \<and> v \<noteq> [] \<and> inFlight (snd (task_cb n e pkg v opts w)) \<subseteq> inFlight w2 \<longrightarrow>
      slug_of pkg v \<in> inFlight (snd (task_cb n e pkg v opts w))
      \<and> task_cb m e2 pkg v opts2 w2 = (Return (), say [Emit (slug_of pkg v) End] w2))
   \<and> inFlight w \<subseteq> inFlight (snd (snd (install_gen n e p w)))
   \<and> inFlight w \<subseteq> inFlight (snd (snd (install_cb n e p w)))
   \<and> inFlight w \<subseteq> inFlight (snd (Package_cb pkg v opts w))
   \<and> inFlight w \<subseteq> inFlight (snd (Package_gen pkg v opts w))"
proof (intro conjI impI)
  assume a: "slug q = slug p \<and> inFlight (snd (snd (install_gen n e p w))) \<subseteq> inFlight w2"
  show "slug p \<in> inFlight (snd (snd (install_gen n e p w)))" by (rule install_gen_marks)
  then have "slug q \<in> inFlight w2" using a by auto
  then show "install_gen m e2 q w2 = (Return (), q, w2)" by (rule install_gen_in_flight)
next
  assume a: "pkg \<noteq> [] \<and> v \<noteq> [] \<and> inFlight (snd (task_cb n e pkg v opts w)) \<subseteq> inFlight w2"
  show m: "slug_of pkg v \<in> inFlight (snd (task_cb n e pkg v opts w))"
    using a by (simp add: task_cb_marks)
  then have "slug_of pkg v \<in> inFlight w2" using a by auto
  then show "task_cb m e2 pkg v opts2 w2 = (Return (), say [Emit (slug_of pkg v) End] w2)"
    using a by (simp add: task_cb_second)
next
  show "inFlight w \<subseteq> inFlight (snd (snd (install_gen n e p w)))"
    by (rule keeps_instD [OF keeps_install_gen]) simp
next
  show "inFlight w \<subseteq> inFlight (snd (snd (install_cb n e p w)))"
    by (rule keeps_instD [OF keeps_install_cb]) simp
next
  show "inFlight w \<subseteq> inFlight (snd (Package_cb pkg v opts w))" by (rule inFlight_Package_cb)
next
  show "inFlight w \<subseteq> inFlight (snd (Package_gen pkg v opts w))" by simp
qed

theorem second_install_fetches_nothing_witness:
  "install_gen 0 (node_env (m2_serves 200)) tip (snd (snd (install_gen 0 (node_env (m2_serves 200)) tip world0)))
     = (Return (), tip, snd (snd (install_gen 0 (node_env (m2_serves 200)) tip world0)))
   \<and> task_cb 0 (node_env (m2_serves 200)) ''component/tip'' ''0.3.0'' two_mirrors
       (snd (task_cb 0 (node_env (m2_serves 200)) ''component/tip'' ''0.3.0'' two_mirrors world0))
     = (Return (), say [Emit (slug_of ''component/tip'' ''0.3.0'') End]
         (snd (task_cb 0 (node_env (m2_serves 200)) ''component/tip'' ''0.3.0'' two_mirrors world0)))"
proof -
  have a: "slug tip = slug tip
     \<and> inFlight (snd (snd (install_gen 0 (node_env (m2_serves 200)) tip world0)))
        \<subseteq> inFlight (snd (snd (install_gen 0 (node_env (m2_serves 200)) tip world0)))"
    by simp
  have b: "''component/tip'' \<noteq> [] \<and> ''0.3.0'' \<noteq> []
     \<and> inFlight (snd (task_cb 0 (node_env (m2_serves 200)) ''component/tip'' ''0.3.0'' two_mirrors world0))
        \<subseteq> inFlight (snd (task_cb 0 (node_env (m2_serves 200)) ''component/tip'' ''0.3.0'' two_mirrors world0))"
    by simp
  show ?thesis
    using a b
      second_install_fetches_nothing [of tip tip 0 "node_env (m2_serves 200)" world0
        "snd (snd (install_gen 0 (node_env (m2_serves 200)) tip world0))" 0 "node_env (m2_serves 200)"]
      second_install_fetches_nothing [of tip tip 0 "node_env (m2_serves 200)" world0
        "snd (task_cb 0 (node_env (m2_serves 200)) ''component/tip'' ''0.3.0'' two_mirrors world0)"
        0 "node_env (m2_serves 200)" "''component/tip''" "''0.3.0''" two_mirrors two_mirrors]
    by blast
qed

section \<open>Errors of a mirror\<close>

text \<open>
  Claim C2, as amended. When the manifest fetch of a mirror fails, the callback revision
  emits the error with \<^verbatim>\<open>fatal\<close> set when the status is not 404 or the mirror is the last
  of the list, and goes on with the next mirror whatever the flag; the generator revision
  throws the error when the mirror is the last and goes on with the next mirror
  otherwise.
\<close>

theorem manifest_error_of_a_mirror:
  "r \<noteq> [] \<Longrightarrow>
   (getJSON_cb e (p\<lparr>remote := Some (butlast (href e r))\<rparr>) w = (Inl err, w1) \<longrightarrow>
      next_cb inst e p (r # rs) w =
        next_cb inst e (p\<lparr>remote := Some (butlast (href e r))\<rparr>) rs
          (say [Emit (slug p) (ErrorEv (err\<lparr>fatal := Some (status err \<noteq> Some 404 \<or> rs = [])\<rparr>))] w1))
   \<and> (getJSON_gen e (p\<lparr>remote := Some (butlast (href e r))\<rparr>) w = (Throw err, w1) \<longrightarrow>
      mirrors_gen inst e p (r # rs) w =
        (if rs = [] then (Throw err, p\<lparr>remote := Some (butlast (href e r))\<rparr>, w1)
         else mirrors_gen inst e (p\<lparr>remote := Some (butlast (href e r))\<rparr>) rs w1))"
  by (simp add: Let_def)

text \<open>The claim as stated fails in the callback revision: with the mirrors \<^verbatim>\<open>m2\<close>, \<^verbatim>\<open>m1\<close> and
  a status 500 from \<^verbatim>\<open>m2\<close>, the error of the first mirror is emitted with \<^verbatim>\<open>fatal\<close> set,
  and the next effect is the request to the second mirror.\<close>

theorem error_500_on_first_mirror_is_fatal:
  "log (snd (task_cb 0 (node_env (m2_serves 500)) ''component/tip'' ''0.3.0'' m2_then_m1 world0)) ! 2
     = Emit ''component/tip@0.3.0''
        (ErrorEv ((error (node_env (m2_serves 500)) 500 ''https://m2/component/tip/0.3.0/component.json'')
                    \<lparr>fatal := Some True\<rparr>))
   \<and> log (snd (task_cb 0 (node_env (m2_serves 500)) ''component/tip'' ''0.3.0'' m2_then_m1 world0)) ! 3
     = Get ''https://m1/component/tip/0.3.0/component.json''"
  by code_simp

theorem manifest_error_of_a_mirror_witness:
  "next_cb no_child (node_env (m2_serves 200)) tip [''https://m1'', ''https://m2''] world0
     = next_cb no_child (node_env (m2_serves 200)) (tip\<lparr>remote := Some ''https://m1''\<rparr>) [''https://m2'']
        (say [Emit (slug tip)
               (ErrorEv ((error (node_env (m2_serves 200)) 404 ''https://m1/component/tip/0.3.0/component.json'')
                   \<lparr>fatal := Some False\<rparr>))]
          (say [Get ''https://m1/component/tip/0.3.0/component.json''] world0))
   \<and> mirrors_gen no_child (node_env (m2_serves 200)) tip [''https://m1'', ''https://m2''] world0
     = mirrors_gen no_child (node_env (m2_serves 200)) (tip\<lparr>remote := Some ''https://m1''\<rparr>) [''https://m2'']
        (say [Get ''https://m1/component/tip/0.3.0/component.json''] world0)"
proof -
  let ?e = "node_env (m2_serves 200)"
  have r: "''https://m1'' \<noteq> []" by simp
  have b: "butlast (href ?e ''https://m1'') = ''https://m1''" by (simp add: node_env_def)
  have s: "status (error ?e 404 ''https://m1/component/tip/0.3.0/component.json'') = Some 404"
    by (simp add: error_def Error_def)
  have h1: "getJSON_cb ?e (tip\<lparr>remote := Some (butlast (href ?e ''https://m1''))\<rparr>) world0
      = (Inl (error ?e 404 ''https://m1/component/tip/0.3.0/component.json''),
         say [Get ''https://m1/component/tip/0.3.0/component.json''] world0)"
    by (simp add: getJSON_cb_def node_env_def m2_serves_def serve_def tip_def url_def Let_def)
  have h2: "getJSON_gen ?e (tip\<lparr>remote := Some (butlast (href ?e ''https://m1''))\<rparr>) world0
      = (Throw (error ?e 404 ''https://m1/component/tip/0.3.0/component.json''),
         say [Get ''https://m1/component/tip/0.3.0/component.json''] world0)"
    by (simp add: getJSON_gen_def node_env_def m2_serves_def serve_def tip_def url_def Let_def)
  show ?thesis
    using manifest_error_of_a_mirror [OF r, of ?e tip world0
        "error ?e 404 ''https://m1/component/tip/0.3.0/component.json''"
        "say [Get ''https://m1/component/tip/0.3.0/component.json''] world0" no_child "[''https://m2'']"]
      h1 h2 b s
    by (simp del: next_cb.simps mirrors_gen.simps)
qed

section \<open>Failover to the second mirror\<close>

text \<open>The callback revision: when the first mirror answers the manifest request with 404,
  the second mirror answers it with a manifest and the batch of that manifest ends without
  an error, \<^verbatim>\<open>end\<close> is emitted and the second mirror is the one bound, on which \<^verbatim>\<open>url\<close>
  then builds. The second lemma runs the scenario of the test file; the effects of the
  batch are in the order of the schedule fixed above.\<close>

lemma failover_cb:
  assumes "m1 \<noteq> []" "m2 \<noteq> []"
    and "getJSON_cb e (p\<lparr>remote := Some (butlast (href e m1))\<rparr>) w = (Inl err, w1)"
    and "status err = Some 404"
    and "getJSON_cb e (p\<lparr>remote := Some (butlast (href e m2))\<rparr>)
           (say [Emit (slug p) (ErrorEv (err\<lparr>fatal := Some False\<rparr>))] w1) = (Inr js, w2)"
    and "fetched_cb inst e (p\<lparr>remote := Some (butlast (href e m2))\<rparr>) js w2 = (Return None, w3)"
  shows "next_cb inst e p [m1, m2] w
         = (Return (), p\<lparr>remote := Some (butlast (href e m2))\<rparr>, say [Emit (slug p) End] w3)"
  using assms by (simp add: Let_def)

lemma callback_install_fails_over:
  "fst (task_cb 0 (node_env (m2_serves 200)) ''component/tip'' ''0.3.0'' two_mirrors world0) = Return ()
   \<and> log (snd (task_cb 0 (node_env (m2_serves 200)) ''component/tip'' ''0.3.0'' two_mirrors world0)) =
      [FsExists ''/w/components/component-tip/component.json'',
       Get ''https://m1/component/tip/0.3.0/component.json'',
       Emit ''component/tip@0.3.0''
         (ErrorEv ((error (node_env (m2_serves 200)) 404 ''https://m1/component/tip/0.3.0/component.json'')
                     \<lparr>fatal := Some False\<rparr>)),
       Get ''https://m2/component/tip/0.3.0/component.json'',
       Mkdirp ''/w/components/component-tip'',
       WriteFile ''/w/components/component-tip/component.json'',
       Mkdirp ''/w/components/component-tip'',
       Emit ''component/tip@0.3.0'' (FileEv ''index.js'' ''https://m2/component/tip/0.3.0/index.js''),
       Download ''https://m2/component/tip/0.3.0/index.js'' ''/w/components/component-tip/index.js'',
       Emit ''component/tip@0.3.0'' (FileEv ''a.css'' ''https://m2/component/tip/0.3.0/a.css''),
       Download ''https://m2/component/tip/0.3.0/a.css'' ''/w/components/component-tip/a.css'',
       Emit ''component/tip@0.3.0'' End]"
  by code_simp

text \<open>The generator revision: \<^verbatim>\<open>reallyInstall\<close> has no way to return. After a mirror has
  been installed from, the loop goes on; after the loop, the directory is destroyed and an
  error is thrown.\<close>

lemma mirrors_gen_never_returns: "fst (mirrors_gen inst e p rs w) \<noteq> Return ()"
proof (induction rs arbitrary: p w)
  case Nil
  show ?case by (simp add: failed_gen_def destroy_gen_def raise_if_def split: prod.splits outcome.splits option.splits)
next
  case (Cons r rs)
  have f: "\<And>q w'. fst (failed_gen e q w') \<noteq> Return ()"
    by (simp add: failed_gen_def destroy_gen_def raise_if_def split: prod.splits outcome.splits option.splits)
  show ?case using Cons.IH f
    by (simp add: Let_def split: prod.splits outcome.splits)
qed

text \<open>
  Claim C1, in the generator revision. On no input does \<^verbatim>\<open>reallyInstall\<close> return. With
  the mirrors \<^verbatim>\<open>m1\<close>, \<^verbatim>\<open>m2\<close>, a 404 from \<^verbatim>\<open>m1\<close> and the manifest with status 200 from
  \<^verbatim>\<open>m2\<close>, the installation throws the fetch error of \<^verbatim>\<open>m2\<close>, status 200, after the two
  requests and nothing else. When \<^verbatim>\<open>m2\<close> answers with the status 400 that this revision
  accepts, both files are announced with URLs on \<^verbatim>\<open>m2\<close>, the last effect is the removal
  of the directory, nothing of the package is left, and \<^verbatim>\<open>can't find remote\<close> is thrown.
\<close>

theorem generator_install_fails_after_failover:
  "fst (reallyInstall_gen inst e p w) \<noteq> Return ()
   \<and> fst (task_gen 0 (node_env (m2_serves 200)) ''component/tip'' ''0.3.0'' two_mirrors world0)
     = Throw (error (node_env (m2_serves 200)) 200 ''https://m2/component/tip/0.3.0/component.json'')
   \<and> log (snd (task_gen 0 (node_env (m2_serves 200)) ''component/tip'' ''0.3.0'' two_mirrors world0))
     = [ReadFile ''/w/components/component-tip/component.json'',
        Get ''https://m1/component/tip/0.3.0/component.json'',
        Get ''https://m2/component/tip/0.3.0/component.json'']
   \<and> fst (task_gen 0 (node_env (m2_serves 400)) ''component/tip'' ''0.3.0'' two_mirrors world0)
     = Throw (Error (''can't find remote for '' @ [CHR 0x22] @ ''component/tip'' @ [CHR 0x22]))
   \<and> Emit ''component/tip@0.3.0'' (FileEv ''index.js'' ''https://m2/component/tip/0.3.0/index.js'')
       \<in> set (log (snd (task_gen 0 (node_env (m2_serves 400)) ''component/tip'' ''0.3.0'' two_mirrors world0)))
   \<and> Emit ''component/tip@0.3.0'' (FileEv ''a.css'' ''https://m2/component/tip/0.3.0/a.css'')
       \<in> set (log (snd (task_gen 0 (node_env (m2_serves 400)) ''component/tip'' ''0.3.0'' two_mirrors world0)))
   \<and> last (log (snd (task_gen 0 (node_env (m2_serves 400)) ''component/tip'' ''0.3.0'' two_mirrors world0)))
     = Rimraf ''/w/components/component-tip''
   \<and> fs (snd (task_gen 0 (node_env (m2_serves 400)) ''component/tip'' ''0.3.0'' two_mirrors world0))
        ''/w/components/component-tip/component.json'' = None
   \<and> fs (snd (task_gen 0 (node_env (m2_serves 400)) ''component/tip'' ''0.3.0'' two_mirrors world0))
        ''/w/components/component-tip/index.js'' = None"
proof -
  have never: "fst (reallyInstall_gen inst e p w) \<noteq> Return ()"
    by (simp add: reallyInstall_gen_def mirrors_gen_never_returns)
  have rejected:
    "fst (task_gen 0 (node_env (m2_serves 200)) ''component/tip'' ''0.3.0'' two_mirrors world0)
       = Throw (error (node_env (m2_serves 200)) 200 ''https://m2/component/tip/0.3.0/component.json'')
     \<and> log (snd (task_gen 0 (node_env (m2_serves 200)) ''component/tip'' ''0.3.0'' two_mirrors world0))
       = [ReadFile ''/w/components/component-tip/component.json'',
          Get ''https://m1/component/tip/0.3.0/component.json'',
          Get ''https://m2/component/tip/0.3.0/component.json'']"
    by code_simp
  have accepted:
    "fst (task_gen 0 (node_env (m2_serves 400)) ''component/tip'' ''0.3.0'' two_mirrors world0)
       = Throw (Error (''can't find remote for '' @ [CHR 0x22] @ ''component/tip'' @ [CHR 0x22]))
     \<and> Emit ''component/tip@0.3.0'' (FileEv ''index.js'' ''https://m2/component/tip/0.3.0/index.js'')
         \<in> set (log (snd (task_gen 0 (node_env (m2_serves 400)) ''component/tip'' ''0.3.0'' two_mirrors world0)))
     \<and> Emit ''component/tip@0.3.0'' (FileEv ''a.css'' ''https://m2/component/tip/0.3.0/a.css'')
         \<in> set (log (snd (task_gen 0 (node_env (m2_serves 400)) ''component/tip'' ''0.3.0'' two_mirrors world0)))
     \<and> last (log (snd (task_gen 0 (node_env (m2_serves 400)) ''component/tip'' ''0.3.0'' two_mirrors world0)))
       = Rimraf ''/w/components/component-tip''
     \<and> fs (snd (task_gen 0 (node_env (m2_serves 400)) ''component/tip'' ''0.3.0'' two_mirrors world0))
          ''/w/components/component-tip/component.json'' = None
     \<and> fs (snd (task_gen 0 (node_env (m2_serves 400)) ''component/tip'' ''0.3.0'' two_mirrors world0))
          ''/w/components/component-tip/index.js'' = None"
    by code_simp
  show ?thesis
    using never rejected accepted by blast
qed

section \<open>Cleanup after a failure\<close>

text \<open>The callback revision: when no mirror answers the manifest request with 200 and
  \<^verbatim>\<open>rimraf\<close> does not fail, nothing is left of the package's directory, and the last two
  effects are the removal and the error \<^verbatim>\<open>can't find remote\<close>, in this order. The error
  of the last mirror, marked fatal, is emitted before the removal.\<close>

lemma next_cb_all_fail:
  assumes "\<forall>r \<in> set rs. \<forall>b. net e (butlast (href e r) @ ''/'' @ name p @ ''/'' @ version p @ ''/'' @ ''component.json'') \<noteq> Response 200 b"
    and "rimraf_error e (dirname_cb e p) = None"
  shows "fst (next_cb inst e p rs w) = Pending
       \<and> (\<forall>f. below (dirname_cb e p) f \<longrightarrow> fs (snd (snd (next_cb inst e p rs w))) f = None)
       \<and> (\<exists>es. log (snd (snd (next_cb inst e p rs w)))
              = log w @ es @ [Rimraf (dirname_cb e p), Emit (slug p) (ErrorEv (cant_find_remote p))])"
  using assms
proof (induction rs arbitrary: p w)
  case Nil
  then show ?case
    by (simp add: exhausted_cb_def Let_def rimraf_def say_def dirname_cb_def cant_find_remote_def)
next
  case (Cons r rs)
  let ?p1 = "p\<lparr>remote := Some (butlast (href e r))\<rparr>"
  have d: "dirname_cb e ?p1 = dirname_cb e p" "cant_find_remote ?p1 = cant_find_remote p"
    by (simp_all add: dirname_cb_def cant_find_remote_def)
  show ?case
  proof (cases "r = []")
    case True
    then show ?thesis using Cons.prems(2)
      by (simp add: exhausted_cb_def Let_def rimraf_def say_def dirname_cb_def cant_find_remote_def)
  next
    case False
    have u: "url ?p1 ''component.json'' = butlast (href e r) @ ''/'' @ name p @ ''/'' @ version p @ ''/'' @ ''component.json''"
      by (simp add: url_def)
    have no: "\<forall>b. net e (url ?p1 ''component.json'') \<noteq> Response 200 b"
      using Cons.prems(1) u by simp
    obtain err where g: "getJSON_cb e ?p1 w = (Inl err, say [Get (url ?p1 ''component.json'')] w)"
      using no by (cases "net e (url ?p1 ''component.json'')") (auto simp add: getJSON_cb_def Let_def)
    let ?w1 = "say [Emit (slug ?p1) (ErrorEv (err\<lparr>fatal := Some (status err \<noteq> Some 404 \<or> rs = [])\<rparr>))]
                 (say [Get (url ?p1 ''component.json'')] w)"
    have step: "next_cb inst e p (r # rs) w = next_cb inst e ?p1 rs ?w1"
      using False g by (simp add: Let_def)
    have ih: "fst (next_cb inst e ?p1 rs ?w1) = Pending
       \<and> (\<forall>f. below (dirname_cb e ?p1) f \<longrightarrow> fs (snd (snd (next_cb inst e ?p1 rs ?w1))) f = None)
       \<and> (\<exists>es. log (snd (snd (next_cb inst e ?p1 rs ?w1)))
              = log ?w1 @ es @ [Rimraf (dirname_cb e ?p1), Emit (slug ?p1) (ErrorEv (cant_find_remote ?p1))])"
      by (rule Cons.IH) (use Cons.prems d in simp_all)
    then obtain es where es: "log (snd (snd (next_cb inst e ?p1 rs ?w1)))
              = log ?w1 @ es @ [Rimraf (dirname_cb e p), Emit (slug p) (ErrorEv (cant_find_remote p))]"
      using d by auto
    have "log ?w1 = log w @ [Get (url ?p1 ''component.json''), Emit (slug ?p1) (ErrorEv (err\<lparr>fatal := Some (status err \<noteq> Some 404 \<or> rs = [])\<rparr>))]"
      by (simp add: say_def)
    then have "\<exists>es'. log (snd (snd (next_cb inst e ?p1 rs ?w1)))
              = log w @ es' @ [Rimraf (dirname_cb e p), Emit (slug p) (ErrorEv (cant_find_remote p))]"
      using es by simp
    then show ?thesis using ih d step by simp
  qed
qed

lemma callback_failure_removes_directory:
  "fst (task_cb 0 (node_env (m2_serves 200)) ''component/tip'' ''0.3.0'' forced_m1 installed_world) = Pending
   \<and> fs (snd (task_cb 0 (node_env (m2_serves 200)) ''component/tip'' ''0.3.0'' forced_m1 installed_world))
        ''/w/components/component-tip'' = None
   \<and> fs (snd (task_cb 0 (node_env (m2_serves 200)) ''component/tip'' ''0.3.0'' forced_m1 installed_world))
        ''/w/components/component-tip/index.js'' = None
   \<and> log (snd (task_cb 0 (node_env (m2_serves 200)) ''component/tip'' ''0.3.0'' forced_m1 installed_world))
      = [FsExists ''/w/components/component-tip/component.json'',
         Get ''https://m1/component/tip/0.3.0/component.json'',
         Emit ''component/tip@0.3.0''
           (ErrorEv ((error (node_env (m2_serves 200)) 404 ''https://m1/component/tip/0.3.0/component.json'')
                       \<lparr>fatal := Some True\<rparr>)),
         Rimraf ''/w/components/component-tip'',
         Emit ''component/tip@0.3.0''
           (ErrorEv (Error (''can't find remote for '' @ [CHR 0x22] @ ''component/tip'' @ [CHR 0x22])))]"
  by code_simp

text \<open>The generator revision: when no mirror answers the manifest request with the status
  it accepts, the error of the last mirror is thrown, the requests are the only effects
  and the file system is as before: nothing is removed.\<close>

lemma mirrors_gen_all_fail:
  assumes "rs \<noteq> []"
    and "\<forall>r \<in> set rs. r \<noteq> [] \<and> (\<forall>b. net e (butlast (href e r) @ ''/'' @ name p @ ''/'' @ version p @ ''/'' @ ''component.json'') \<noteq> Response 400 b)"
  shows "(\<exists>err. fst (mirrors_gen inst e p rs w) = Throw err)
       \<and> fs (snd (snd (mirrors_gen inst e p rs w))) = fs w
       \<and> log (snd (snd (mirrors_gen inst e p rs w)))
           = log w @ map (\<lambda>r. Get (butlast (href e r) @ ''/'' @ name p @ ''/'' @ version p @ ''/'' @ ''component.json'')) rs"
  using assms
proof (induction rs arbitrary: p w)
  case Nil
  then show ?case by simp
next
  case (Cons r rs)
  let ?p1 = "p\<lparr>remote := Some (butlast (href e r))\<rparr>"
  let ?u = "butlast (href e r) @ ''/'' @ name p @ ''/'' @ version p @ ''/'' @ ''component.json''"
  have r: "r \<noteq> []" using Cons.prems(2) by simp
  have u: "url ?p1 ''component.json'' = ?u" by (simp add: url_def)
  have no: "\<forall>b. net e (url ?p1 ''component.json'') \<noteq> Response 400 b"
    using Cons.prems(2) u by simp
  obtain err where g: "getJSON_gen e ?p1 w = (Throw err, say [Get ?u] w)"
    using no u by (cases "net e (url ?p1 ''component.json'')") (auto simp add: getJSON_gen_def Let_def)
  show ?case
  proof (cases "rs = []")
    case True
    then show ?thesis using r g by (simp add: Let_def say_def)
  next
    case False
    have step: "mirrors_gen inst e p (r # rs) w = mirrors_gen inst e ?p1 rs (say [Get ?u] w)"
      using r g False by (simp add: Let_def)
    have ih: "(\<exists>err. fst (mirrors_gen inst e ?p1 rs (say [Get ?u] w)) = Throw err)
       \<and> fs (snd (snd (mirrors_gen inst e ?p1 rs (say [Get ?u] w)))) = fs (say [Get ?u] w)
       \<and> log (snd (snd (mirrors_gen inst e ?p1 rs (say [Get ?u] w))))
           = log (say [Get ?u] w) @ map (\<lambda>r. Get (butlast (href e r) @ ''/'' @ name ?p1 @ ''/'' @ version ?p1 @ ''/'' @ ''component.json'')) rs"
      by (rule Cons.IH) (use False Cons.prems(2) in simp_all)
    then show ?thesis using step by (simp add: say_def)
  qed
qed

text \<open>
  Claim C3, in the generator revision. A forced reinstall from a single mirror that
  answers 404 throws the fetch error and removes nothing: the directory of the package is
  still there, and the log holds the read of the local manifest and the request, no
  removal. An installation whose manifest is accepted and whose first file answers 404
  throws the error of the file and leaves the directory with the manifest in it.
\<close>

theorem generator_failure_leaves_directory:
  "fst (task_gen 0 (node_env (m2_serves 200)) ''component/tip'' ''0.3.0'' forced_m1 installed_world)
     = Throw (error (node_env (m2_serves 200)) 404 ''https://m1/component/tip/0.3.0/component.json'')
   \<and> fs (snd (task_gen 0 (node_env (m2_serves 200)) ''component/tip'' ''0.3.0'' forced_m1 installed_world))
        ''/w/components/component-tip'' = Some Dir
   \<and> log (snd (task_gen 0 (node_env (m2_serves 200)) ''component/tip'' ''0.3.0'' forced_m1 installed_world))
      = [ReadFile ''/w/components/component-tip/component.json'',
         Get ''https://m1/component/tip/0.3.0/component.json'']
   \<and> fst (task_gen 0 (node_env m2_manifest_only) ''component/tip'' ''0.3.0'' one_mirror world0)
     = Throw (error (node_env m2_manifest_only) 404 ''https://m2/component/tip/0.3.0/index.js'')
   \<and> fs (snd (task_gen 0 (node_env m2_manifest_only) ''component/tip'' ''0.3.0'' one_mirror world0))
        ''/w/components/component-tip'' = Some Dir
   \<and> fs (snd (task_gen 0 (node_env m2_manifest_only) ''component/tip'' ''0.3.0'' one_mirror world0))
        ''/w/components/component-tip/index.js'' = None
   \<and> Rimraf ''/w/components/component-tip''
        \<notin> set (log (snd (task_gen 0 (node_env m2_manifest_only) ''component/tip'' ''0.3.0'' one_mirror world0)))"
  by code_simp

end
